theory Spec2Isabelle
  imports Main "HOL-Library.AList"
begin

section \<open>Cell values and ledger rows\<close>

text \<open>
  Both programs keep the ledger in a pandas DataFrame. A cell of the frame holds a Python
  object: a \<open>str\<close>, the missing value \<open>nan\<close> that \<open>read_csv\<close> produces for an empty
  field, or some other object (an \<open>int\<close>, \<open>float\<close> or \<open>bool\<close> that \<open>read_csv\<close> inferred, or
  a value taken from a JSON response). The code tells these apart itself
  (\<open>isinstance(..., str)\<close>, \<open>fillna("")\<close>, \<open>astype(str)\<close>, \<open>str(...)\<close>), so the model keeps
  them apart: \<open>Other r\<close> is an object that is neither a \<open>str\<close> nor missing, given by the
  text \<open>r\<close> that \<open>str()\<close> renders it as. Cells are dynamically typed, as in a column of
  dtype \<open>object\<close>: an assignment stores the assigned value.
\<close>

datatype cell = Str string | NaN | Other string

text \<open>\<open>isinstance(x, str)\<close>.\<close>

fun is_str :: "cell \<Rightarrow> bool" where
  "is_str (Str s) = True"
| "is_str NaN = False"
| "is_str (Other r) = False"

text \<open>\<open>Series.fillna("")\<close> on one cell.\<close>

fun fillna_empty :: "cell \<Rightarrow> cell" where
  "fillna_empty NaN = Str []"
| "fillna_empty (Str s) = Str s"
| "fillna_empty (Other r) = Other r"

text \<open>\<open>str(x)\<close>, which is also what \<open>Series.astype(str)\<close> applies to each cell.\<close>

fun py_str :: "cell \<Rightarrow> string" where
  "py_str (Str s) = s"
| "py_str NaN = ''nan''"
| "py_str (Other r) = r"

text \<open>
  One row of a frame that has the nine columns of the schema (the columns
  \<open>load_jobs_df\<close> guarantees, and the keys of the \<open>row\<close> dictionaries the scans build).
\<close>

record job_row =
  company :: cell
  role_title :: cell
  job_link :: cell
  applied_date :: cell
  status :: cell
  job_text :: cell
  summary :: cell
  skills :: cell
  salary :: cell

type_synonym ledger = "job_row list"

text \<open>\<open>Series.any()\<close> of a boolean mask.\<close>

definition mask_any :: "bool list \<Rightarrow> bool" where
  "mask_any bs = list_ex (\<lambda>b. b) bs"

section \<open>Date normalization (gmail\_sync.parse\_date)\<close>

text \<open>
  An exception is a value; the string is the name of its class.
\<close>

datatype py_exception = PyException string

text \<open>
  The \<open>datetime\<close> that \<open>email.utils.parsedate_to_datetime\<close> returns: the wall-clock fields
  as written in the header and the offset of its \<open>tzinfo\<close> (in seconds; \<open>None\<close> for a naive
  value). The parser itself is library code and is a parameter of the model: it returns a
  \<open>datetime\<close> or raises.
\<close>

record datetime =
  dt_year :: nat
  dt_month :: nat
  dt_day :: nat
  dt_hour :: nat
  dt_minute :: nat
  dt_second :: nat
  dt_utcoffset :: "int option"

record date =
  d_year :: nat
  d_month :: nat
  d_day :: nat

type_synonym date_parser = "string \<Rightarrow> py_exception + datetime"

text \<open>\<open>datetime.date()\<close>: the year, month and day fields, the offset is not applied.\<close>

definition date_of :: "datetime \<Rightarrow> date" where
  "date_of dt = \<lparr>d_year = dt_year dt, d_month = dt_month dt, d_day = dt_day dt\<rparr>"

definition digit_char :: "nat \<Rightarrow> char" where
  "digit_char n = ''0123456789'' ! (n mod 10)"

fun decimal :: "nat \<Rightarrow> string" where
  "decimal n = (if n < 10 then [digit_char n] else decimal (n div 10) @ [digit_char n])"

declare decimal.simps [simp del]

text \<open>The format \<open>%0wd\<close>.\<close>

definition zero_pad :: "nat \<Rightarrow> nat \<Rightarrow> string" where
  "zero_pad w n = replicate (w - length (decimal n)) (CHR ''0'') @ decimal n"

text \<open>\<open>date.isoformat()\<close>: \<open>"%04d-%02d-%02d" % (year, month, day)\<close>.\<close>

definition isoformat :: "date \<Rightarrow> string" where
  "isoformat d = zero_pad 4 (d_year d) @ ''-'' @ zero_pad 2 (d_month d) @ ''-'' @ zero_pad 2 (d_day d)"

text \<open>
  \<open>parse_date\<close>: the \<open>try\<close> returns the ISO date of the parsed value, the
  \<open>except Exception\<close> returns the empty string.
\<close>

definition parse_date :: "date_parser \<Rightarrow> string \<Rightarrow> string" where
  "parse_date parsedate_to_datetime date_str =
     (case parsedate_to_datetime date_str of
        Inr dt \<Rightarrow> isoformat (date_of dt)
      | Inl e \<Rightarrow> [])"

section \<open>Reconciliation passes (gmail\_sync)\<close>

text \<open>
  What the loop body reads from one fetched message: the \<open>Subject\<close>, \<open>From\<close> and \<open>Date\<close>
  headers (\<open>get_header\<close> returns the empty string for a header that is absent) and the
  snippet.
\<close>

record event =
  subject :: string
  from_header :: string
  date_header :: string
  snippet :: string

subsection \<open>scan\_confirmations\<close>

text \<open>The \<open>row\<close> dictionary of \<open>scan_confirmations\<close>.\<close>

definition confirmation_row :: "string \<Rightarrow> string \<Rightarrow> string \<Rightarrow> string \<Rightarrow> job_row" where
  "confirmation_row company' role_title' applied_date' job_text' =
     \<lparr>company = Str company',
      role_title = Str role_title',
      job_link = Str [],
      applied_date = Str applied_date',
      status = Str ''Applied'',
      job_text = Str job_text',
      summary = Str [],
      skills = Str [],
      salary = Str []\<rparr>"

text \<open>
  \<open>dup_mask = (df["role_title"] == role_title) & (df["applied_date"] == applied_date)\<close>:
  an elementwise comparison with a \<open>str\<close>, true only in a cell that holds that \<open>str\<close>.
\<close>

definition dup_mask :: "ledger \<Rightarrow> string \<Rightarrow> string \<Rightarrow> bool list" where
  "dup_mask df role_title' applied_date' =
     map (\<lambda>r. role_title r = Str role_title' \<and> applied_date r = Str applied_date') df"

text \<open>
  One iteration of the loop of \<open>scan_confirmations\<close>: \<open>continue\<close> on a duplicate, otherwise
  \<open>pd.concat([df, pd.DataFrame([row])], ignore_index=True)\<close>.
\<close>

definition confirm_event :: "date_parser \<Rightarrow> ledger \<Rightarrow> event \<Rightarrow> ledger" where
  "confirm_event p df e =
     (let applied_date' = parse_date p (date_header e);
          company' = from_header e;
          role_title' = subject e;
          job_text' = snippet e
      in if mask_any (dup_mask df role_title' applied_date') then df
         else df @ [confirmation_row company' role_title' applied_date' job_text'])"

fun scan_confirmations :: "date_parser \<Rightarrow> event list \<Rightarrow> ledger \<Rightarrow> ledger" where
  "scan_confirmations p [] df = df"
| "scan_confirmations p (e # es) df = scan_confirmations p es (confirm_event p df e)"

subsection \<open>scan\_rejections\<close>

text \<open>The separator \<open>"\n[Rejection snippet] "\<close>.\<close>

definition rejection_separator :: string where
  "rejection_separator = CHR 0x0A # ''[Rejection snippet] ''"

text \<open>The \<open>row\<close> dictionary of \<open>scan_rejections\<close>.\<close>

definition rejection_row :: "string \<Rightarrow> string \<Rightarrow> string \<Rightarrow> string \<Rightarrow> job_row" where
  "rejection_row from_header' subject' rejection_date snippet' =
     \<lparr>company = Str from_header',
      role_title = Str subject',
      job_link = Str [],
      applied_date = Str rejection_date,
      status = Str ''Rejected'',
      job_text = Str snippet',
      summary = Str [],
      skills = Str [],
      salary = Str []\<rparr>"

text \<open>\<open>mask = df["role_title"] == subject\<close>.\<close>

definition subject_mask :: "ledger \<Rightarrow> string \<Rightarrow> bool list" where
  "subject_mask df subject' = map (\<lambda>r. role_title r = Str subject') df"

text \<open>\<open>df.loc[mask, "status"] = "Rejected"\<close>.\<close>

definition loc_set_status :: "bool list \<Rightarrow> cell \<Rightarrow> ledger \<Rightarrow> ledger" where
  "loc_set_status msk v df = map2 (\<lambda>m r. if m then r\<lparr>status := v\<rparr> else r) msk df"

text \<open>
  \<open>df.loc[mask, "job_text"] = df.loc[mask, "job_text"].fillna("").astype(str) + sep + snippet\<close>.
\<close>

definition loc_append_job_text :: "bool list \<Rightarrow> string \<Rightarrow> ledger \<Rightarrow> ledger" where
  "loc_append_job_text msk suffix df =
     map2 (\<lambda>m r. if m then r\<lparr>job_text := Str (py_str (fillna_empty (job_text r)) @ suffix)\<rparr> else r)
       msk df"

text \<open>One iteration of the loop of \<open>scan_rejections\<close>.\<close>

definition reject_event :: "date_parser \<Rightarrow> ledger \<Rightarrow> event \<Rightarrow> ledger" where
  "reject_event p df e =
     (let rejection_date = parse_date p (date_header e);
          msk = subject_mask df (subject e)
      in if mask_any msk then
           loc_append_job_text msk (rejection_separator @ snippet e)
             (loc_set_status msk (Str ''Rejected'') df)
         else df @ [rejection_row (from_header e) (subject e) rejection_date (snippet e)])"

fun scan_rejections :: "date_parser \<Rightarrow> event list \<Rightarrow> ledger \<Rightarrow> ledger" where
  "scan_rejections p [] df = df"
| "scan_rejections p (e # es) df = scan_rejections p es (reject_event p df e)"

section \<open>Ledger store (gmail\_sync.load\_jobs\_df)\<close>

text \<open>
  At the load boundary the columns are not fixed yet. A frame is its column index and its
  rows, a row pairing each column name with its cell, in column order. The value \<open>pd.read_csv\<close> returns for
  the file is the input: the model starts where pandas hands the frame to the program.
\<close>

type_synonym frame_row = "(string \<times> cell) list"

record dataframe =
  df_columns :: "string list"
  df_rows :: "frame_row list"

definition schema :: "string list" where
  "schema = [''company'', ''role_title'', ''job_link'', ''applied_date'', ''status'',
             ''job_text'', ''summary'', ''skills'', ''salary'']"

text \<open>\<open>pd.DataFrame(columns=[...])\<close>: no rows.\<close>

definition empty_frame :: "string list \<Rightarrow> dataframe" where
  "empty_frame cols = \<lparr>df_columns = cols, df_rows = []\<rparr>"

text \<open>
  \<open>df[col] = v\<close> with a scalar \<open>v\<close>: every row gets \<open>v\<close> in that column, and a new column
  is appended to the index.
\<close>

definition set_column :: "string \<Rightarrow> cell \<Rightarrow> dataframe \<Rightarrow> dataframe" where
  "set_column col v df =
     \<lparr>df_columns = (if col \<in> set (df_columns df) then df_columns df else df_columns df @ [col]),
      df_rows = map (AList.update col v) (df_rows df)\<rparr>"

text \<open>The body of the loop \<open>for col in [...]: if col not in df.columns: df[col] = ""\<close>.\<close>

definition ensure_column :: "string \<Rightarrow> dataframe \<Rightarrow> dataframe" where
  "ensure_column col df = (if col \<notin> set (df_columns df) then set_column col (Str []) df else df)"

text \<open>
  \<open>load_jobs_df\<close>. The argument is the state of \<open>jobs.csv\<close>: \<open>None\<close> when the file does not
  exist, otherwise the frame \<open>read_csv\<close> parsed from it.
\<close>

definition load_jobs_df :: "dataframe option \<Rightarrow> dataframe" where
  "load_jobs_df jobs_csv =
     fold ensure_column schema
       (case jobs_csv of Some df \<Rightarrow> df | None \<Rightarrow> empty_frame schema)"

text \<open>
  What \<open>read_csv\<close> returns is rectangular: each row has one cell for each column of the
  index, in the order of the index.
\<close>

definition rectangular :: "dataframe \<Rightarrow> bool" where
  "rectangular df = list_all (\<lambda>r. map fst r = df_columns df) (df_rows df)"

text \<open>
  The row record of a frame row that has the nine columns, and the ledger of a frame all
  of whose rows have them.
\<close>

definition job_row_of :: "frame_row \<Rightarrow> job_row option" where
  "job_row_of r =
     (if list_all (\<lambda>c. map_of r c \<noteq> None) schema then
        Some \<lparr>company = the (map_of r ''company''),
              role_title = the (map_of r ''role_title''),
              job_link = the (map_of r ''job_link''),
              applied_date = the (map_of r ''applied_date''),
              status = the (map_of r ''status''),
              job_text = the (map_of r ''job_text''),
              summary = the (map_of r ''summary''),
              skills = the (map_of r ''skills''),
              salary = the (map_of r ''salary'')\<rparr>
      else None)"

definition ledger_of :: "dataframe \<Rightarrow> ledger option" where
  "ledger_of df =
     (if list_all (\<lambda>r. job_row_of r \<noteq> None) (df_rows df)
      then Some (map (\<lambda>r. the (job_row_of r)) (df_rows df)) else None)"

section \<open>Enrichment backfill (job\_tracker.process\_jobs)\<close>

text \<open>
  A Python \<open>str\<close> is a sequence of code points; the strings of the model hold its UTF-8
  encoding, so a character outside ASCII is two to four bytes. \<open>whitespace\<close> lists the
  encodings of the 29 characters for which \<open>str.isspace()\<close> holds: U+0009 to U+000D, U+001C
  to U+001F, U+0020, U+0085, U+00A0, U+1680, U+2000 to U+200A, U+2028, U+2029, U+202F,
  U+205F and U+3000.
\<close>

definition whitespace :: "string list" where
  "whitespace =
     [[CHR 0x09], [CHR 0x0A], [CHR 0x0B], [CHR 0x0C], [CHR 0x0D],
      [CHR 0x1C], [CHR 0x1D], [CHR 0x1E], [CHR 0x1F], [CHR 0x20],
      [CHR 0xC2, CHR 0x85], [CHR 0xC2, CHR 0xA0],
      [CHR 0xE1, CHR 0x9A, CHR 0x80],
      [CHR 0xE2, CHR 0x80, CHR 0x80], [CHR 0xE2, CHR 0x80, CHR 0x81],
      [CHR 0xE2, CHR 0x80, CHR 0x82], [CHR 0xE2, CHR 0x80, CHR 0x83],
      [CHR 0xE2, CHR 0x80, CHR 0x84], [CHR 0xE2, CHR 0x80, CHR 0x85],
      [CHR 0xE2, CHR 0x80, CHR 0x86], [CHR 0xE2, CHR 0x80, CHR 0x87],
      [CHR 0xE2, CHR 0x80, CHR 0x88], [CHR 0xE2, CHR 0x80, CHR 0x89],
      [CHR 0xE2, CHR 0x80, CHR 0x8A],
      [CHR 0xE2, CHR 0x80, CHR 0xA8], [CHR 0xE2, CHR 0x80, CHR 0xA9],
      [CHR 0xE2, CHR 0x80, CHR 0xAF], [CHR 0xE2, CHR 0x81, CHR 0x9F],
      [CHR 0xE3, CHR 0x80, CHR 0x80]]"

text \<open>
  Removing, as long as there is one, a leading character of the given set. The loop ends
  because each round removes at least one byte.
\<close>

function drop_leading :: "string list \<Rightarrow> string \<Rightarrow> string" where
  "drop_leading ws s =
     (case find (\<lambda>w. w \<noteq> [] \<and> take (length w) s = w) ws of
        Some w \<Rightarrow> drop_leading ws (drop (length w) s)
      | None \<Rightarrow> s)"
  by pat_completeness auto
termination
proof (relation "measure (\<lambda>(ws, s). length s)")
  show "wf (measure (\<lambda>(ws, s). length s))" by simp
next
  fix ws :: "string list" and s w :: string
  assume "find (\<lambda>w. w \<noteq> [] \<and> take (length w) s = w) ws = Some w"
  then have w: "w \<noteq> []" "take (length w) s = w" by (auto simp: find_Some_iff)
  then have "s \<noteq> []" by auto
  with w(1) show "((ws, drop (length w) s), (ws, s)) \<in> measure (\<lambda>(ws, s). length s)"
    by simp
qed

declare drop_leading.simps [simp del]

text \<open>
  \<open>str.lstrip()\<close>, \<open>str.rstrip()\<close> and \<open>str.strip()\<close>: leading whitespace characters are removed,
  trailing ones are removed by the same loop on the reversed string with the reversed
  encodings (in UTF-8 no encoding ends inside another character), and \<open>strip\<close> does both.
\<close>

definition lstrip :: "string \<Rightarrow> string" where
  "lstrip s = drop_leading whitespace s"

definition rstrip :: "string \<Rightarrow> string" where
  "rstrip s = rev (drop_leading (map rev whitespace) (rev s))"

definition strip :: "string \<Rightarrow> string" where
  "strip s = rstrip (lstrip s)"

text \<open>
  The guard of the loop, \<open>isinstance(row.get("summary", ""), str) and row["summary"].strip()\<close>:
  true for a \<open>str\<close> that is not empty after stripping, false for every other cell.
\<close>

fun has_summary :: "cell \<Rightarrow> bool" where
  "has_summary (Str s) = (strip s \<noteq> [])"
| "has_summary NaN = False"
| "has_summary (Other r) = False"

text \<open>
  The dictionary \<open>summarize_job\<close> returns. Each of the three keys may be absent. The value
  under \<open>skills\<close> is a list (of any objects) or some other object.
\<close>

datatype skills_value = SkillsList "cell list" | SkillsScalar cell

record summary_result =
  res_summary :: "cell option"
  res_skills :: "skills_value option"
  res_salary :: "cell option"

text \<open>
  \<open>summarize_job(client, row)\<close> is a call to a remote service: it returns a dictionary or
  raises. The call made for the row at index \<open>idx\<close> may depend on the index as well as on
  the row (two equal rows need not get equal answers). A returned object that is not a
  dictionary makes the first \<open>result.get\<close> raise before anything is written, which is the
  \<open>Inl\<close> case as well.
\<close>

type_synonym summarizer = "nat \<Rightarrow> job_row \<Rightarrow> py_exception + summary_result"

text \<open>\<open>sep.join(xs)\<close> for a list of \<open>str\<close>.\<close>

fun str_join :: "string \<Rightarrow> string list \<Rightarrow> string" where
  "str_join sep [] = []"
| "str_join sep [x] = x"
| "str_join sep (x # y # ys) = x @ sep @ str_join sep (y # ys)"

text \<open>\<open>sep.join(xs)\<close> for a list of objects: a \<open>TypeError\<close> when an item is not a \<open>str\<close>.\<close>

definition join_cells :: "string \<Rightarrow> cell list \<Rightarrow> py_exception + string" where
  "join_cells sep xs =
     (if list_all is_str xs then Inr (str_join sep (map py_str xs))
      else Inl (PyException ''TypeError''))"

text \<open>
  The \<open>try\<close> block for one row, as state passing over the row and the counter. The three
  assignments \<open>df.at[idx, ...] = ...\<close> happen in the order of the source, so an exception
  leaves the assignments made before it in place; \<open>except Exception\<close> then only prints.
\<close>

definition try_summarize :: "summarizer \<Rightarrow> nat \<Rightarrow> job_row \<Rightarrow> nat \<Rightarrow> job_row \<times> nat" where
  "try_summarize summarize_job idx row updated =
     (case summarize_job idx row of
        Inl e \<Rightarrow> (row, updated)
      | Inr result \<Rightarrow>
          (let row1 = row\<lparr>summary := (case res_summary result of Some v \<Rightarrow> v | None \<Rightarrow> Str [])\<rparr>;
               skills_list = (case res_skills result of Some v \<Rightarrow> v | None \<Rightarrow> SkillsList []);
               salary' = (case res_salary result of Some v \<Rightarrow> v | None \<Rightarrow> Str [])
           in case skills_list of
                SkillsList xs \<Rightarrow>
                  (case join_cells '', '' xs of
                     Inl e \<Rightarrow> (row1, updated)
                   | Inr s \<Rightarrow> (row1\<lparr>skills := Str s, salary := salary'\<rparr>, updated + 1))
              | SkillsScalar v \<Rightarrow>
                  (row1\<lparr>skills := Str (py_str v), salary := salary'\<rparr>, updated + 1)))"

text \<open>
  The loop \<open>for idx, row in df.iterrows()\<close>, from index \<open>idx\<close> on: the rows still to visit,
  and the counter so far. It returns the rows as the frame holds them afterwards and the
  final counter.
\<close>

fun process_rows :: "summarizer \<Rightarrow> nat \<Rightarrow> ledger \<Rightarrow> nat \<Rightarrow> ledger \<times> nat" where
  "process_rows summarize_job idx [] updated = ([], updated)"
| "process_rows summarize_job idx (row # rest) updated =
     (if has_summary (summary row) then
        (let (rest', n) = process_rows summarize_job (Suc idx) rest updated
         in (row # rest', n))
      else
        (let (row', updated') = try_summarize summarize_job idx row updated;
             (rest', n) = process_rows summarize_job (Suc idx) rest updated'
         in (row' # rest', n)))"

text \<open>\<open>process_jobs\<close> on the frame read from the input file: \<open>updated = 0\<close>, then the loop.\<close>

definition process_jobs :: "summarizer \<Rightarrow> ledger \<Rightarrow> ledger \<times> nat" where
  "process_jobs summarize_job df = process_rows summarize_job 0 df 0"

section \<open>Keys and example data\<close>

text \<open>
  The pair the confirmation pass de-duplicates on, read off a row and off an event.
\<close>

definition row_key :: "job_row \<Rightarrow> cell \<times> cell" where
  "row_key r = (role_title r, applied_date r)"

definition event_key :: "date_parser \<Rightarrow> event \<Rightarrow> cell \<times> cell" where
  "event_key p e = (Str (subject e), Str (parse_date p (date_header e)))"


text \<open>
  The scenario used to exercise the theorems below: a confirmation mail for the title
  \<open>Software Engineer\<close>, sent late in the evening in a zone eight hours behind UTC, and a
  rejection mail with the same subject and no \<open>Date\<close> header. The example parser reads
  that one date and raises on every other string.
\<close>

definition example_parser :: date_parser where
  "example_parser s =
     (if s = ''Wed, 10 Jan 2024 23:30:00 -0800''
      then Inr \<lparr>dt_year = 2024, dt_month = 1, dt_day = 10, dt_hour = 23, dt_minute = 30,
                dt_second = 0, dt_utcoffset = Some (- 28800)\<rparr>
      else Inl (PyException ''ValueError''))"

definition confirmation_example :: event where
  "confirmation_example =
     \<lparr>subject = ''Software Engineer'', from_header = ''[email protected]'',
      date_header = ''Wed, 10 Jan 2024 23:30:00 -0800'', snippet = ''Thanks for applying''\<rparr>"

definition rejection_example :: event where
  "rejection_example =
     \<lparr>subject = ''Software Engineer'', from_header = ''[email protected]'',
      date_header = [], snippet = ''not moving forward''\<rparr>"

definition example_ledger :: ledger where
  "example_ledger =
     [\<lparr>company = Str ''[email protected]'', role_title = Str ''Software Engineer'',
       job_link = Str [], applied_date = Str ''2024-01-10'', status = Str ''Applied'',
       job_text = Str ''Thanks for applying'', summary = Str [], skills = Str [],
       salary = Str []\<rparr>]"


definition second_confirmation_example :: event where
  "second_confirmation_example =
     \<lparr>subject = ''Software Engineer'', from_header = ''[email protected]'',
      date_header = ''Wed, 10 Jan 2024 23:30:00 -0800'', snippet = ''We received your application''\<rparr>"

text \<open>
  The columns of the schema a frame lacks, in schema order, and the cells that fill them.
\<close>

definition missing_columns :: "string list \<Rightarrow> dataframe \<Rightarrow> string list" where
  "missing_columns cols df = filter (\<lambda>c. c \<notin> set (df_columns df)) cols"

definition blank_cells :: "string list \<Rightarrow> frame_row" where
  "blank_cells cols = map (\<lambda>c. (c, Str [])) cols"

text \<open>
  A ledger file written before the \<open>salary\<close> column existed: eight columns, one row, its
  empty fields read as missing values.
\<close>

definition legacy_jobs_csv :: dataframe where
  "legacy_jobs_csv =
     \<lparr>df_columns = [''company'', ''role_title'', ''job_link'', ''applied_date'', ''status'',
                    ''job_text'', ''summary'', ''skills''],
      df_rows = [[(''company'', Str ''Acme''), (''role_title'', Str ''Software Engineer''),
                  (''job_link'', NaN), (''applied_date'', Str ''2024-01-10''),
                  (''status'', Str ''Applied''), (''job_text'', Str ''Thanks for applying''),
                  (''summary'', NaN), (''skills'', NaN)]]\<rparr>"

text \<open>
  Reading a returned dictionary as the \<open>try\<close> block does: \<open>result.get("summary", "")\<close>,
  \<open>result.get("salary", "")\<close>; whether the value under \<open>skills\<close> can be turned into text
  without an exception (a list joins only if all its items are \<open>str\<close>; any other object has
  a \<open>str()\<close>), and that text. A call completes for a row when \<open>summarize_job\<close> returns and
  the \<open>try\<close> block then runs to its last statement.
\<close>

definition get_summary :: "summary_result \<Rightarrow> cell" where
  "get_summary result = (case res_summary result of Some v \<Rightarrow> v | None \<Rightarrow> Str [])"

definition get_salary :: "summary_result \<Rightarrow> cell" where
  "get_salary result = (case res_salary result of Some v \<Rightarrow> v | None \<Rightarrow> Str [])"

definition skills_joinable :: "summary_result \<Rightarrow> bool" where
  "skills_joinable result =
     (case res_skills result of
        Some (SkillsList xs) \<Rightarrow> list_all is_str xs
      | Some (SkillsScalar v) \<Rightarrow> True
      | None \<Rightarrow> True)"

definition skills_text :: "summary_result \<Rightarrow> string" where
  "skills_text result =
     (case res_skills result of
        Some (SkillsList xs) \<Rightarrow> str_join '', '' (map py_str xs)
      | Some (SkillsScalar v) \<Rightarrow> py_str v
      | None \<Rightarrow> [])"

definition completes :: "summarizer \<Rightarrow> nat \<Rightarrow> job_row \<Rightarrow> bool" where
  "completes sj idx row = (case sj idx row of Inl e \<Rightarrow> False | Inr result \<Rightarrow> skills_joinable result)"

text \<open>
  Rows and summarizers to exercise the backfill: a row not yet enriched (its three
  enrichment cells read as missing values), an enriched row, a row whose summary is a
  no-break space followed by a space, a row whose summary cell holds the boolean that \<open>read_csv\<close> makes of the text \<open>True\<close>, a summarizer that answers every call
  with one well-formed dictionary, and one whose \<open>skills\<close> list holds a number.
\<close>

definition pending_row :: job_row where
  "pending_row =
     \<lparr>company = Str ''[email protected]'', role_title = Str ''Software Engineer'',
      job_link = Str [], applied_date = Str ''2024-01-10'', status = Str ''Applied'',
      job_text = Str ''Thanks for applying'', summary = NaN, skills = NaN, salary = NaN\<rparr>"

definition enriched_row :: job_row where
  "enriched_row =
     pending_row\<lparr>summary := Str ''Maintains the billing platform'', skills := Str ''Go, Kafka'',
                 salary := Str ''unknown''\<rparr>"

definition boolean_summary_row :: job_row where
  "boolean_summary_row = pending_row\<lparr>summary := Other ''True''\<rparr>"

definition blank_summary_row :: job_row where
  "blank_summary_row = pending_row\<lparr>summary := Str [CHR 0xC2, CHR 0xA0, CHR 0x20]\<rparr>"

definition good_result :: summary_result where
  "good_result =
     \<lparr>res_summary = Some (Str ''Builds backend services''),
      res_skills = Some (SkillsList [Str ''SQL'', Str ''Python'']),
      res_salary = Some (Str ''unknown'')\<rparr>"

definition good_summarizer :: summarizer where
  "good_summarizer idx row = Inr good_result"

definition malformed_summarizer :: summarizer where
  "malformed_summarizer idx row =
     Inr (good_result\<lparr>res_skills := Some (SkillsList [Str ''SQL'', Other ''3''])\<rparr>)"

section \<open>The confirmation pass\<close>

lemma mask_any_dup_mask:
  "mask_any (dup_mask df t d) \<longleftrightarrow> (Str t, Str d) \<in> row_key ` set df"
  by (force simp: mask_any_def dup_mask_def list_ex_iff row_key_def image_iff)

lemma row_key_confirmation_row [simp]:
  "row_key (confirmation_row c t d x) = (Str t, Str d)"
  by (simp add: row_key_def confirmation_row_def)

lemma confirm_event_dup:
  "event_key p e \<in> row_key ` set df \<Longrightarrow> confirm_event p df e = df"
  by (simp add: confirm_event_def Let_def mask_any_dup_mask event_key_def)

lemma confirm_event_new:
  "event_key p e \<notin> row_key ` set df \<Longrightarrow>
   confirm_event p df e =
     df @ [confirmation_row (from_header e) (subject e) (parse_date p (date_header e)) (snippet e)]"
  by (simp add: confirm_event_def Let_def mask_any_dup_mask event_key_def)

lemma confirm_event_recorded: "event_key p e \<in> row_key ` set (confirm_event p df e)"
proof (cases "event_key p e \<in> row_key ` set df")
  case True
  then show ?thesis by (simp add: confirm_event_dup)
next
  case False
  then show ?thesis by (simp add: confirm_event_new event_key_def)
qed

lemma confirm_event_keeps: "set df \<subseteq> set (confirm_event p df e)"
  by (cases "event_key p e \<in> row_key ` set df") (auto simp: confirm_event_dup confirm_event_new)

lemma scan_confirmations_keeps: "set df \<subseteq> set (scan_confirmations p es df)"
proof (induction es arbitrary: df)
  case Nil
  show ?case by simp
next
  case (Cons e es)
  have "set df \<subseteq> set (confirm_event p df e)" by (rule confirm_event_keeps)
  also have "\<dots> \<subseteq> set (scan_confirmations p es (confirm_event p df e))" by (rule Cons.IH)
  finally show ?case by simp
qed

lemma scan_confirmations_recorded:
  "e \<in> set es \<Longrightarrow> event_key p e \<in> row_key ` set (scan_confirmations p es df)"
proof (induction es arbitrary: df)
  case Nil
  then show ?case by simp
next
  case (Cons a es)
  show ?case
  proof (cases "e = a")
    case True
    have "event_key p a \<in> row_key ` set (confirm_event p df a)" by (rule confirm_event_recorded)
    with scan_confirmations_keeps [of "confirm_event p df a" p es] True show ?thesis by auto
  next
    case False
    with Cons.prems have "e \<in> set es" by simp
    then show ?thesis using Cons.IH by simp
  qed
qed

lemma scan_confirmations_all_dup:
  "\<forall>e\<in>set es. event_key p e \<in> row_key ` set df \<Longrightarrow> scan_confirmations p es df = df"
  by (induction es) (simp_all add: confirm_event_dup)

lemma scan_confirmations_append:
  "scan_confirmations p (xs @ ys) df = scan_confirmations p ys (scan_confirmations p xs df)"
  by (induction xs arbitrary: df) simp_all

lemma scan_confirmations_inserted:
  "\<exists>ins. scan_confirmations p es df = df @ ins \<and> distinct (map row_key ins) \<and>
         row_key ` set ins \<inter> row_key ` set df = {}"
proof (induction es arbitrary: df)
  case Nil
  show ?case by simp
next
  case (Cons e es)
  show ?case
  proof (cases "event_key p e \<in> row_key ` set df")
    case True
    with Cons.IH [of df] show ?thesis by (simp add: confirm_event_dup)
  next
    case False
    let ?new = "confirmation_row (from_header e) (subject e) (parse_date p (date_header e)) (snippet e)"
    from Cons.IH [of "df @ [?new]"] obtain ins where
      ins: "scan_confirmations p es (df @ [?new]) = (df @ [?new]) @ ins"
        "distinct (map row_key ins)" "row_key ` set ins \<inter> row_key ` set (df @ [?new]) = {}"
      by blast
    have key: "row_key ?new = event_key p e" by (simp add: event_key_def)
    have "scan_confirmations p (e # es) df = df @ (?new # ins)"
      using False ins(1) by (simp add: confirm_event_new)
    moreover have "distinct (map row_key (?new # ins))"
      using ins(2,3) by auto
    moreover have "row_key ` set (?new # ins) \<inter> row_key ` set df = {}"
      using ins(3) False key by auto
    ultimately show ?thesis by blast
  qed
qed

text \<open>
  Claim C3. One confirmation event against a ledger: if some row holds the event's subject
  as its \<open>role_title\<close> and the event's normalized date as its \<open>applied_date\<close> (both as
  strings, the empty date included), the event is dropped and the ledger is returned as
  it was; if no row does, the ledger grows by exactly one row at the end, with
  \<open>status = "Applied"\<close>, \<open>company\<close> the sender, \<open>role_title\<close> the subject, \<open>job_text\<close> the
  snippet, and \<open>job_link\<close>, \<open>summary\<close>, \<open>skills\<close>, \<open>salary\<close> empty. Two events with the same
  subject whose dates both normalize to the empty string are duplicates of each other:
  after the first, the second changes nothing.
\<close>

theorem confirm_event_duplicate_or_insert:
  "((\<exists>r\<in>set df. role_title r = Str (subject e) \<and>
                  applied_date r = Str (parse_date p (date_header e))) \<longrightarrow>
      confirm_event p df e = df) \<and>
   ((\<forall>r\<in>set df. \<not> (role_title r = Str (subject e) \<and>
                      applied_date r = Str (parse_date p (date_header e)))) \<longrightarrow>
      confirm_event p df e =
        df @ [\<lparr>company = Str (from_header e),
               role_title = Str (subject e),
               job_link = Str [],
               applied_date = Str (parse_date p (date_header e)),
               status = Str ''Applied'',
               job_text = Str (snippet e),
               summary = Str [],
               skills = Str [],
               salary = Str []\<rparr>]) \<and>
   (subject e' = subject e \<and> parse_date p (date_header e) = [] \<and>
    parse_date p (date_header e') = [] \<longrightarrow>
      confirm_event p (confirm_event p df e) e' = confirm_event p df e)"
proof (intro conjI impI)
  assume "\<exists>r\<in>set df. role_title r = Str (subject e) \<and>
                  applied_date r = Str (parse_date p (date_header e))"
  then have "event_key p e \<in> row_key ` set df"
    by (force simp: event_key_def row_key_def image_iff)
  then show "confirm_event p df e = df" by (rule confirm_event_dup)
next
  assume "\<forall>r\<in>set df. \<not> (role_title r = Str (subject e) \<and>
                      applied_date r = Str (parse_date p (date_header e)))"
  then have "event_key p e \<notin> row_key ` set df"
    by (auto simp: event_key_def row_key_def image_iff)
  then show "confirm_event p df e =
        df @ [\<lparr>company = Str (from_header e),
               role_title = Str (subject e),
               job_link = Str [],
               applied_date = Str (parse_date p (date_header e)),
               status = Str ''Applied'',
               job_text = Str (snippet e),
               summary = Str [],
               skills = Str [],
               salary = Str []\<rparr>]"
    by (simp add: confirm_event_new confirmation_row_def)
next
  assume "subject e' = subject e \<and> parse_date p (date_header e) = [] \<and>
    parse_date p (date_header e') = []"
  then have "event_key p e' = event_key p e" by (simp add: event_key_def)
  then have "event_key p e' \<in> row_key ` set (confirm_event p df e)"
    using confirm_event_recorded [of p e df] by simp
  then show "confirm_event p (confirm_event p df e) e' = confirm_event p df e"
    by (rule confirm_event_dup)
qed

text \<open>
  The theorem at the example: a second confirmation for the recorded title and date is
  dropped, the first confirmation into an empty ledger inserts the row, and of two undated
  events with one subject only the first inserts.
\<close>

theorem confirm_event_duplicate_or_insert_witness:
  "(\<exists>r\<in>set example_ledger. role_title r = Str (subject second_confirmation_example) \<and>
       applied_date r = Str (parse_date example_parser (date_header second_confirmation_example))) \<and>
   confirm_event example_parser example_ledger second_confirmation_example = example_ledger \<and>
   confirm_event example_parser [] confirmation_example =
     [\<lparr>company = Str ''[email protected]'', role_title = Str ''Software Engineer'',
       job_link = Str [], applied_date = Str ''2024-01-10'', status = Str ''Applied'',
       job_text = Str ''Thanks for applying'', summary = Str [], skills = Str [],
       salary = Str []\<rparr>] \<and>
   parse_date example_parser (date_header rejection_example) = [] \<and>
   confirm_event example_parser (confirm_event example_parser example_ledger rejection_example)
       (rejection_example\<lparr>snippet := ''again''\<rparr>) =
     example_ledger @
       [\<lparr>company = Str ''[email protected]'', role_title = Str ''Software Engineer'',
         job_link = Str [], applied_date = Str [], status = Str ''Applied'',
         job_text = Str ''not moving forward'', summary = Str [], skills = Str [],
         salary = Str []\<rparr>]"
proof -
  have d: "parse_date example_parser ''Wed, 10 Jan 2024 23:30:00 -0800'' = ''2024-01-10''"
    by code_simp
  have d0: "parse_date example_parser (date_header rejection_example) = []"
    by code_simp
  have d0': "parse_date example_parser [] = []"
    by code_simp
  have h1: "\<exists>r\<in>set example_ledger. role_title r = Str (subject second_confirmation_example) \<and>
       applied_date r = Str (parse_date example_parser (date_header second_confirmation_example))"
    by (simp add: d example_ledger_def second_confirmation_example_def)
  have h2: "\<forall>r\<in>set ([] :: ledger). \<not> (role_title r = Str (subject confirmation_example) \<and>
       applied_date r = Str (parse_date example_parser (date_header confirmation_example)))"
    by simp
  have h3: "\<forall>r\<in>set example_ledger. \<not> (role_title r = Str (subject rejection_example) \<and>
       applied_date r = Str (parse_date example_parser (date_header rejection_example)))"
    by (simp add: d0' example_ledger_def rejection_example_def)
  have a: "confirm_event example_parser example_ledger second_confirmation_example = example_ledger"
    using confirm_event_duplicate_or_insert
      [of example_ledger second_confirmation_example example_parser second_confirmation_example] h1
    by blast
  have b: "confirm_event example_parser [] confirmation_example =
     [\<lparr>company = Str ''[email protected]'', role_title = Str ''Software Engineer'',
       job_link = Str [], applied_date = Str ''2024-01-10'', status = Str ''Applied'',
       job_text = Str ''Thanks for applying'', summary = Str [], skills = Str [],
       salary = Str []\<rparr>]"
    using confirm_event_duplicate_or_insert
      [of "[]" confirmation_example example_parser confirmation_example] h2
    by (simp add: d confirmation_example_def)
  have c1: "confirm_event example_parser example_ledger rejection_example =
     example_ledger @
       [\<lparr>company = Str ''[email protected]'', role_title = Str ''Software Engineer'',
         job_link = Str [], applied_date = Str [], status = Str ''Applied'',
         job_text = Str ''not moving forward'', summary = Str [], skills = Str [],
         salary = Str []\<rparr>]"
    using confirm_event_duplicate_or_insert
      [of example_ledger rejection_example example_parser rejection_example] h3
    by (simp add: d0' rejection_example_def)
  have c2: "confirm_event example_parser (confirm_event example_parser example_ledger rejection_example)
       (rejection_example\<lparr>snippet := ''again''\<rparr>) =
     confirm_event example_parser example_ledger rejection_example"
    using confirm_event_duplicate_or_insert
      [of example_ledger rejection_example example_parser "rejection_example\<lparr>snippet := ''again''\<rparr>"] d0
    by simp
  show ?thesis using h1 a b d0 c1 c2 by simp
qed

text \<open>
  Claim C2. The confirmation pass is idempotent: run again on its own result with the same
  events, it returns that result unchanged, since every event now finds its
  (\<open>role_title\<close>, \<open>applied_date\<close>) pair in the ledger.
\<close>

theorem scan_confirmations_idempotent:
  "scan_confirmations p es (scan_confirmations p es df) = scan_confirmations p es df"
  by (rule scan_confirmations_all_dup) (simp add: scan_confirmations_recorded)

text \<open>
  Claim C10. Within one confirmation pass each event is checked against the ledger as the
  earlier events of the pass left it. The pass only appends (the ledger it was given is a
  prefix of the result), no two of the rows it appends share the pair
  (\<open>role_title\<close>, \<open>applied_date\<close>), and an event that comes after another event of the same
  batch with the same subject and the same normalized date inserts nothing.
\<close>

theorem scan_confirmations_inserts_distinct:
  "take (length df) (scan_confirmations p es df) = df \<and>
   distinct (map (\<lambda>r. (role_title r, applied_date r))
               (drop (length df) (scan_confirmations p es df))) \<and>
   (subject e2 = subject e1 \<and>
    parse_date p (date_header e2) = parse_date p (date_header e1) \<longrightarrow>
      scan_confirmations p (es1 @ e1 # es2 @ [e2]) df = scan_confirmations p (es1 @ e1 # es2) df)"
proof (intro conjI impI)
  obtain ins where ins: "scan_confirmations p es df = df @ ins" "distinct (map row_key ins)"
    using scan_confirmations_inserted [of p es df] by blast
  show "take (length df) (scan_confirmations p es df) = df" by (simp add: ins(1))
  have "(\<lambda>r. (role_title r, applied_date r)) = row_key"
    by (simp add: fun_eq_iff row_key_def)
  then show "distinct (map (\<lambda>r. (role_title r, applied_date r))
               (drop (length df) (scan_confirmations p es df)))"
    using ins by simp
next
  assume same: "subject e2 = subject e1 \<and>
    parse_date p (date_header e2) = parse_date p (date_header e1)"
  let ?mid = "scan_confirmations p (es1 @ e1 # es2) df"
  have "e1 \<in> set (es1 @ e1 # es2)" by simp
  then have "event_key p e1 \<in> row_key ` set ?mid" by (rule scan_confirmations_recorded)
  moreover have "event_key p e2 = event_key p e1" using same by (simp add: event_key_def)
  ultimately have "confirm_event p ?mid e2 = ?mid" by (simp add: confirm_event_dup)
  moreover have "scan_confirmations p (es1 @ e1 # es2 @ [e2]) df =
      scan_confirmations p [e2] ?mid"
    using scan_confirmations_append [of p "es1 @ e1 # es2" "[e2]" df] by simp
  ultimately show "scan_confirmations p (es1 @ e1 # es2 @ [e2]) df = ?mid" by simp
qed

text \<open>
  The theorem at the example: two confirmations with one subject and one date, in one batch
  on an empty ledger, leave the single row of the first.
\<close>

theorem scan_confirmations_inserts_distinct_witness:
  "subject second_confirmation_example = subject confirmation_example \<and>
   parse_date example_parser (date_header second_confirmation_example) =
     parse_date example_parser (date_header confirmation_example) \<and>
   scan_confirmations example_parser [confirmation_example, second_confirmation_example] [] =
     example_ledger"
proof -
  have h: "subject second_confirmation_example = subject confirmation_example \<and>
   parse_date example_parser (date_header second_confirmation_example) =
     parse_date example_parser (date_header confirmation_example)"
    by (simp add: second_confirmation_example_def confirmation_example_def)
  have one: "scan_confirmations example_parser [confirmation_example] [] = example_ledger"
    by code_simp
  from scan_confirmations_inserts_distinct
    [of "[]" example_parser "[]" second_confirmation_example confirmation_example "[]" "[]"] h
  have "scan_confirmations example_parser ([] @ confirmation_example # [] @ [second_confirmation_example]) [] =
     scan_confirmations example_parser ([] @ confirmation_example # []) []"
    by blast
  then show ?thesis using h one by simp
qed

section \<open>The rejection pass\<close>

lemma mask_any_subject_mask:
  "mask_any (subject_mask df s) \<longleftrightarrow> (\<exists>r\<in>set df. role_title r = Str s)"
  by (simp add: mask_any_def subject_mask_def list_ex_iff)

lemma length_loc_set_status:
  "length msk = length df \<Longrightarrow> length (loc_set_status msk v df) = length df"
  by (simp add: loc_set_status_def)

lemma nth_loc_set_status:
  "length msk = length df \<Longrightarrow> i < length df \<Longrightarrow>
   loc_set_status msk v df ! i = (if msk ! i then (df ! i)\<lparr>status := v\<rparr> else df ! i)"
  by (simp add: loc_set_status_def)

lemma length_loc_append_job_text:
  "length msk = length df \<Longrightarrow> length (loc_append_job_text msk sfx df) = length df"
  by (simp add: loc_append_job_text_def)

lemma nth_loc_append_job_text:
  "length msk = length df \<Longrightarrow> i < length df \<Longrightarrow>
   loc_append_job_text msk sfx df ! i =
     (if msk ! i then (df ! i)\<lparr>job_text := Str (py_str (fillna_empty (job_text (df ! i))) @ sfx)\<rparr>
      else df ! i)"
  by (simp add: loc_append_job_text_def)

lemma reject_event_matched_eq:
  "\<exists>r\<in>set df. role_title r = Str (subject e) \<Longrightarrow>
   reject_event p df e =
     loc_append_job_text (subject_mask df (subject e)) (rejection_separator @ snippet e)
       (loc_set_status (subject_mask df (subject e)) (Str ''Rejected'') df)"
  by (simp add: reject_event_def Let_def mask_any_subject_mask)

lemma length_reject_event_matched:
  "\<exists>r\<in>set df. role_title r = Str (subject e) \<Longrightarrow> length (reject_event p df e) = length df"
  by (simp add: reject_event_matched_eq length_loc_append_job_text length_loc_set_status
      subject_mask_def)

lemma nth_reject_event_matched:
  assumes "\<exists>r\<in>set df. role_title r = Str (subject e)" and "i < length df"
  shows "reject_event p df e ! i =
     (if role_title (df ! i) = Str (subject e)
      then (df ! i)\<lparr>status := Str ''Rejected'',
             job_text := Str (py_str (fillna_empty (job_text (df ! i))) @ rejection_separator @ snippet e)\<rparr>
      else df ! i)"
proof -
  let ?msk = "subject_mask df (subject e)"
  have len: "length ?msk = length df" by (simp add: subject_mask_def)
  have m: "?msk ! i = (role_title (df ! i) = Str (subject e))"
    using assms(2) by (simp add: subject_mask_def)
  have len1: "length ?msk = length (loc_set_status ?msk (Str ''Rejected'') df)"
    using len by (simp add: length_loc_set_status)
  have i1: "i < length (loc_set_status ?msk (Str ''Rejected'') df)"
    using assms(2) len by (simp add: length_loc_set_status)
  show ?thesis
    unfolding reject_event_matched_eq [OF assms(1)]
    by (simp add: nth_loc_append_job_text [OF len1 i1] nth_loc_set_status [OF len assms(2)] m)
qed

lemma reject_event_unmatched:
  "\<forall>r\<in>set df. role_title r \<noteq> Str (subject e) \<Longrightarrow>
   reject_event p df e =
     df @ [rejection_row (from_header e) (subject e) (parse_date p (date_header e)) (snippet e)]"
  by (simp add: reject_event_def Let_def mask_any_subject_mask)

lemma reject_event_trace:
  "\<exists>r\<in>set (reject_event p df e). role_title r = Str (subject e) \<and> status r = Str ''Rejected''"
proof (cases "\<exists>r\<in>set df. role_title r = Str (subject e)")
  case True
  then obtain i where i: "i < length df" "role_title (df ! i) = Str (subject e)"
    by (auto simp: in_set_conv_nth)
  let ?r = "reject_event p df e ! i"
  have "?r \<in> set (reject_event p df e)"
    using i(1) by (simp add: length_reject_event_matched [OF True])
  moreover have "role_title ?r = Str (subject e) \<and> status ?r = Str ''Rejected''"
    using i by (simp add: nth_reject_event_matched [OF True])
  ultimately show ?thesis by blast
next
  case False
  then show ?thesis by (simp add: reject_event_unmatched rejection_row_def)
qed

text \<open>
  Claim C1. One rejection event against a ledger in which at least one row holds the
  event's subject as its \<open>role_title\<close>: no row is added or removed; every matched row gets
  \<open>status = "Rejected"\<close> and its \<open>job_text\<close> becomes the text it had (the empty text for a
  missing value), followed by the separator \<open>"\n[Rejection snippet] "\<close> and the event's
  snippet, with every other field as before; every other row is as before. A string
  \<open>job_text\<close> is kept in full as a prefix of the new one. A matched row whose status was
  already \<open>"Rejected"\<close> is an instance: it keeps that status and gains one more snippet
  line.
\<close>

theorem reject_event_matched:
  assumes "\<exists>r\<in>set df. role_title r = Str (subject e)"
  shows "length (reject_event p df e) = length df \<and>
    (\<forall>i<length df.
       (role_title (df ! i) = Str (subject e) \<longrightarrow>
          reject_event p df e ! i =
            (df ! i)\<lparr>status := Str ''Rejected'',
                     job_text := Str (py_str (fillna_empty (job_text (df ! i))) @
                                      CHR 0x0A # ''[Rejection snippet] '' @ snippet e)\<rparr>) \<and>
       (role_title (df ! i) \<noteq> Str (subject e) \<longrightarrow> reject_event p df e ! i = df ! i)) \<and>
    (\<forall>i<length df. \<forall>s.
       role_title (df ! i) = Str (subject e) \<and> job_text (df ! i) = Str s \<longrightarrow>
         job_text (reject_event p df e ! i) = Str (s @ CHR 0x0A # ''[Rejection snippet] '' @ snippet e))"
  using assms
  by (simp add: length_reject_event_matched nth_reject_event_matched rejection_separator_def)

text \<open>
  The theorem at the example of the specification: the row inserted for the confirmation
  is matched by the rejection, and its text becomes
  \<open>"Thanks for applying\n[Rejection snippet] not moving forward"\<close>.
\<close>

theorem reject_event_matched_witness:
  "(\<exists>r\<in>set example_ledger. role_title r = Str (subject rejection_example)) \<and>
   length (reject_event example_parser example_ledger rejection_example) = 1 \<and>
   reject_event example_parser example_ledger rejection_example ! 0 =
     \<lparr>company = Str ''[email protected]'', role_title = Str ''Software Engineer'',
      job_link = Str [], applied_date = Str ''2024-01-10'', status = Str ''Rejected'',
      job_text = Str (''Thanks for applying'' @ CHR 0x0A # ''[Rejection snippet] not moving forward''),
      summary = Str [], skills = Str [], salary = Str []\<rparr>"
proof -
  have h: "\<exists>r\<in>set example_ledger. role_title r = Str (subject rejection_example)"
    by (simp add: example_ledger_def rejection_example_def)
  from reject_event_matched [OF h, of example_parser] show ?thesis
    using h by (simp add: example_ledger_def rejection_example_def)
qed

text \<open>
  Claim C4. One rejection event whose subject is the \<open>role_title\<close> of no row: the ledger
  grows by exactly one row, appended at the end, with \<open>status = "Rejected"\<close>, \<open>role_title\<close>
  the subject, \<open>company\<close> the sender, \<open>job_text\<close> the snippet, \<open>applied_date\<close> the event's
  normalized date, and \<open>summary\<close>, \<open>skills\<close>, \<open>salary\<close>, \<open>job_link\<close> empty. Matched or not,
  every rejection event leaves a row with its subject and the status \<open>"Rejected"\<close>.
\<close>

theorem reject_event_unmatched_inserts:
  "((\<forall>r\<in>set df. role_title r \<noteq> Str (subject e)) \<longrightarrow>
      length (reject_event p df e) = length df + 1 \<and>
      reject_event p df e =
        df @ [\<lparr>company = Str (from_header e),
               role_title = Str (subject e),
               job_link = Str [],
               applied_date = Str (parse_date p (date_header e)),
               status = Str ''Rejected'',
               job_text = Str (snippet e),
               summary = Str [],
               skills = Str [],
               salary = Str []\<rparr>]) \<and>
   (\<exists>r\<in>set (reject_event p df e). role_title r = Str (subject e) \<and> status r = Str ''Rejected'')"
  by (simp add: reject_event_unmatched rejection_row_def reject_event_trace)

text \<open>
  The theorem at the example: an undated rejection for a title the ledger does not hold
  appends its row.
\<close>

theorem reject_event_unmatched_inserts_witness:
  "\<not> (\<exists>r\<in>set example_ledger. role_title r = Str ''Data Analyst'') \<and>
   reject_event example_parser example_ledger (rejection_example\<lparr>subject := ''Data Analyst''\<rparr>) =
     example_ledger @
       [\<lparr>company = Str ''[email protected]'', role_title = Str ''Data Analyst'',
         job_link = Str [], applied_date = Str [], status = Str ''Rejected'',
         job_text = Str ''not moving forward'', summary = Str [], skills = Str [],
         salary = Str []\<rparr>]"
proof -
  have d: "parse_date example_parser [] = []" by code_simp
  have h: "\<forall>r\<in>set example_ledger.
             role_title r \<noteq> Str (subject (rejection_example\<lparr>subject := ''Data Analyst''\<rparr>))"
    by (simp add: example_ledger_def)
  from reject_event_unmatched_inserts
    [of example_ledger "rejection_example\<lparr>subject := ''Data Analyst''\<rparr>" example_parser] h
  show ?thesis by (simp add: d rejection_example_def example_ledger_def)
qed

section \<open>Date normalization\<close>

lemma digit_char_digit: "digit_char n \<in> set ''0123456789''"
proof -
  have "n mod 10 < length ''0123456789''" by simp
  then show ?thesis unfolding digit_char_def by (rule nth_mem)
qed

lemma decimal_digits: "set (decimal n) \<subseteq> set ''0123456789''"
proof (induction n rule: decimal.induct)
  case (1 n)
  show ?case
  proof (cases "n < 10")
    case True
    then have "decimal n = [digit_char n]" by (simp add: decimal.simps)
    then show ?thesis using digit_char_digit [of n] by simp
  next
    case False
    then have "decimal n = decimal (n div 10) @ [digit_char n]" by (simp add: decimal.simps)
    then show ?thesis using 1 [OF False] digit_char_digit [of n] by simp
  qed
qed

lemma length_decimal_pos: "0 < length (decimal n)"
  by (subst decimal.simps) simp

lemma length_decimal_le: "n < 10 ^ k \<Longrightarrow> 0 < k \<Longrightarrow> length (decimal n) \<le> k"
proof (induction k arbitrary: n)
  case 0
  then show ?case by simp
next
  case (Suc k)
  show ?case
  proof (cases "n < 10")
    case True
    then show ?thesis by (simp add: decimal.simps)
  next
    case False
    with Suc.prems have k: "0 < k" by (cases k) auto
    from Suc.prems have "n div 10 < 10 ^ k" by (simp add: less_mult_imp_div_less mult.commute)
    then have "length (decimal (n div 10)) \<le> k" using k by (rule Suc.IH)
    with False show ?thesis by (subst decimal.simps) simp
  qed
qed

lemma length_zero_pad: "n < 10 ^ w \<Longrightarrow> 0 < w \<Longrightarrow> length (zero_pad w n) = w"
  using length_decimal_le [of n w] by (simp add: zero_pad_def)

lemma zero_pad_digits: "set (zero_pad w n) \<subseteq> set ''0123456789''"
proof -
  have "set (replicate (w - length (decimal n)) CHR ''0'') \<subseteq> {CHR ''0''}" by auto
  with decimal_digits [of n] show ?thesis unfolding zero_pad_def by auto
qed

lemma parse_date_Inl: "p s = Inl x \<Longrightarrow> parse_date p s = []"
  by (simp add: parse_date_def)

lemma parse_date_Inr:
  "p s = Inr dt \<Longrightarrow>
   parse_date p s = zero_pad 4 (dt_year dt) @ ''-'' @ zero_pad 2 (dt_month dt) @ ''-'' @ zero_pad 2 (dt_day dt)"
  by (simp add: parse_date_def isoformat_def date_of_def)

lemma iso_shape:
  assumes "length y = 4" "length m = 2" "length d = 2"
    and "set y \<subseteq> D" "set m \<subseteq> D" "set d \<subseteq> D"
  shows "length (y @ ''-'' @ m @ ''-'' @ d) = 10 \<and>
         (y @ ''-'' @ m @ ''-'' @ d) ! 4 = CHR ''-'' \<and>
         (y @ ''-'' @ m @ ''-'' @ d) ! 7 = CHR ''-'' \<and>
         (\<forall>i<10. i \<noteq> 4 \<and> i \<noteq> 7 \<longrightarrow> (y @ ''-'' @ m @ ''-'' @ d) ! i \<in> D)"
proof -
  from assms(1) obtain y0 y1 y2 y3 where y: "y = [y0, y1, y2, y3]"
    by (auto simp: length_Suc_conv numeral_eq_Suc)
  from assms(2) obtain m0 m1 where m: "m = [m0, m1]"
    by (auto simp: length_Suc_conv numeral_eq_Suc)
  from assms(3) obtain d0 d1 where d: "d = [d0, d1]"
    by (auto simp: length_Suc_conv numeral_eq_Suc)
  have "\<forall>i<10. i \<noteq> 4 \<and> i \<noteq> 7 \<longrightarrow> [y0, y1, y2, y3, CHR ''-'', m0, m1, CHR ''-'', d0, d1] ! i \<in> D"
  proof (intro allI impI)
    fix i :: nat
    assume "i < 10" and "i \<noteq> 4 \<and> i \<noteq> 7"
    then have "i \<in> {0, 1, 2, 3, 5, 6, 8, 9}" by auto
    then show "[y0, y1, y2, y3, CHR ''-'', m0, m1, CHR ''-'', d0, d1] ! i \<in> D"
      using assms(4-6) by (auto simp: y m d)
  qed
  then show ?thesis by (simp add: y m d)
qed

lemma parse_date_shape:
  assumes "p s = Inr dt" and "dt_year dt < 10000" and "dt_month dt < 100" and "dt_day dt < 100"
  shows "length (parse_date p s) = 10 \<and> parse_date p s ! 4 = CHR ''-'' \<and>
         parse_date p s ! 7 = CHR ''-'' \<and>
         (\<forall>i<10. i \<noteq> 4 \<and> i \<noteq> 7 \<longrightarrow> parse_date p s ! i \<in> set ''0123456789'')"
proof -
  have "length (zero_pad 4 (dt_year dt)) = 4" using assms(2) by (simp add: length_zero_pad)
  moreover have "length (zero_pad 2 (dt_month dt)) = 2" using assms(3) by (simp add: length_zero_pad)
  moreover have "length (zero_pad 2 (dt_day dt)) = 2" using assms(4) by (simp add: length_zero_pad)
  ultimately show ?thesis
    unfolding parse_date_Inr [of p s dt, OF assms(1)]
    by (rule iso_shape) (rule zero_pad_digits)+
qed

lemma reject_event_keeps_rejected:
  assumes "\<exists>r\<in>set df. role_title r = Str t \<and> status r = Str ''Rejected''"
  shows "\<exists>r\<in>set (reject_event p df e). role_title r = Str t \<and> status r = Str ''Rejected''"
proof (cases "\<exists>r\<in>set df. role_title r = Str (subject e)")
  case True
  from assms obtain i where i: "i < length df" "role_title (df ! i) = Str t"
      "status (df ! i) = Str ''Rejected''"
    by (auto simp: in_set_conv_nth)
  let ?r = "reject_event p df e ! i"
  have "?r \<in> set (reject_event p df e)"
    using i(1) by (simp add: length_reject_event_matched [OF True])
  moreover have "role_title ?r = Str t \<and> status ?r = Str ''Rejected''"
    using i by (simp add: nth_reject_event_matched [OF True])
  ultimately show ?thesis by blast
next
  case False
  with assms show ?thesis by (auto simp: reject_event_unmatched)
qed

lemma scan_rejections_keeps_rejected:
  "\<exists>r\<in>set df. role_title r = Str t \<and> status r = Str ''Rejected'' \<Longrightarrow>
   \<exists>r\<in>set (scan_rejections p es df). role_title r = Str t \<and> status r = Str ''Rejected''"
proof (induction es arbitrary: df)
  case Nil
  then show ?case by simp
next
  case (Cons e es)
  from Cons.prems have "\<exists>r\<in>set (reject_event p df e). role_title r = Str t \<and> status r = Str ''Rejected''"
    by (rule reject_event_keeps_rejected)
  then show ?case using Cons.IH by simp
qed

lemma scan_rejections_trace:
  "e \<in> set es \<Longrightarrow>
   \<exists>r\<in>set (scan_rejections p es df). role_title r = Str (subject e) \<and> status r = Str ''Rejected''"
proof (induction es arbitrary: df)
  case Nil
  then show ?case by simp
next
  case (Cons a es)
  show ?case
  proof (cases "e = a")
    case True
    have "\<exists>r\<in>set (reject_event p df a). role_title r = Str (subject a) \<and> status r = Str ''Rejected''"
      by (rule reject_event_trace)
    then show ?thesis using True by (simp add: scan_rejections_keeps_rejected)
  next
    case False
    with Cons.prems have "e \<in> set es" by simp
    then show ?thesis using Cons.IH by simp
  qed
qed

lemma scan_confirmations_recorded_row:
  assumes "e \<in> set es"
  shows "\<exists>r\<in>set (scan_confirmations p es df).
           role_title r = Str (subject e) \<and> applied_date r = Str (parse_date p (date_header e))"
proof -
  from assms have "event_key p e \<in> row_key ` set (scan_confirmations p es df)"
    by (rule scan_confirmations_recorded)
  then show ?thesis by (force simp: event_key_def row_key_def image_iff)
qed

text \<open>
  Claim C9. \<open>parse_date\<close> has no error outcome: when the parser raises, the result is the
  empty string; when it returns a \<open>datetime\<close>, the result is its year, month and day as
  \<open>YYYY-MM-DD\<close> (ten characters, digits around two dashes, for the years a \<open>datetime\<close> can
  hold), read off the fields as parsed: the time of day and the UTC offset do not enter.
  An event whose date does not parse is processed like any other, with the empty string as
  its date: a confirmation that is no duplicate is inserted with \<open>applied_date = ""\<close>, an
  unmatched rejection is inserted with \<open>applied_date = ""\<close>, and after a whole pass over a
  batch that holds such an event the ledger has a row for it (with the empty date after
  the confirmation pass, with the status \<open>"Rejected"\<close> after the rejection pass).
\<close>

theorem parse_date_never_fails:
  "(p s = Inl x \<longrightarrow> parse_date p s = []) \<and>
   (p s = Inr dt \<longrightarrow>
      parse_date p s =
        zero_pad 4 (dt_year dt) @ ''-'' @ zero_pad 2 (dt_month dt) @ ''-'' @ zero_pad 2 (dt_day dt)) \<and>
   (p s = Inr dt \<and> dt_year dt < 10000 \<and> dt_month dt < 100 \<and> dt_day dt < 100 \<longrightarrow>
      length (parse_date p s) = 10 \<and> parse_date p s ! 4 = CHR ''-'' \<and>
      parse_date p s ! 7 = CHR ''-'' \<and>
      (\<forall>i<10. i \<noteq> 4 \<and> i \<noteq> 7 \<longrightarrow> parse_date p s ! i \<in> set ''0123456789'')) \<and>
   (p s = Inr dt \<and>
    p' s = Inr (dt\<lparr>dt_hour := h, dt_minute := m, dt_second := sec, dt_utcoffset := off\<rparr>) \<longrightarrow>
      parse_date p' s = parse_date p s) \<and>
   (p (date_header e) = Inl x \<and>
    (\<forall>r\<in>set df. \<not> (role_title r = Str (subject e) \<and> applied_date r = Str [])) \<longrightarrow>
      confirm_event p df e =
        df @ [\<lparr>company = Str (from_header e), role_title = Str (subject e), job_link = Str [],
               applied_date = Str [], status = Str ''Applied'', job_text = Str (snippet e),
               summary = Str [], skills = Str [], salary = Str []\<rparr>]) \<and>
   (p (date_header e) = Inl x \<and> (\<forall>r\<in>set df. role_title r \<noteq> Str (subject e)) \<longrightarrow>
      reject_event p df e =
        df @ [\<lparr>company = Str (from_header e), role_title = Str (subject e), job_link = Str [],
               applied_date = Str [], status = Str ''Rejected'', job_text = Str (snippet e),
               summary = Str [], skills = Str [], salary = Str []\<rparr>]) \<and>
   (e \<in> set es \<and> p (date_header e) = Inl x \<longrightarrow>
      (\<exists>r\<in>set (scan_confirmations p es df).
          role_title r = Str (subject e) \<and> applied_date r = Str []) \<and>
      (\<exists>r\<in>set (scan_rejections p es df).
          role_title r = Str (subject e) \<and> status r = Str ''Rejected''))"
proof (intro conjI impI)
  show "parse_date p s = []" if "p s = Inl x"
    using that by (rule parse_date_Inl)
  show "parse_date p s =
        zero_pad 4 (dt_year dt) @ ''-'' @ zero_pad 2 (dt_month dt) @ ''-'' @ zero_pad 2 (dt_day dt)"
    if "p s = Inr dt"
    using that by (rule parse_date_Inr)
  show "parse_date p' s = parse_date p s"
    if "p s = Inr dt \<and>
        p' s = Inr (dt\<lparr>dt_hour := h, dt_minute := m, dt_second := sec, dt_utcoffset := off\<rparr>)"
    using that by (simp add: parse_date_def date_of_def)
next
  assume a: "p s = Inr dt \<and> dt_year dt < 10000 \<and> dt_month dt < 100 \<and> dt_day dt < 100"
  then have shape: "length (parse_date p s) = 10 \<and> parse_date p s ! 4 = CHR ''-'' \<and>
         parse_date p s ! 7 = CHR ''-'' \<and>
         (\<forall>i<10. i \<noteq> 4 \<and> i \<noteq> 7 \<longrightarrow> parse_date p s ! i \<in> set ''0123456789'')"
    using parse_date_shape [of p s dt] by blast
  from shape show "length (parse_date p s) = 10" by blast
  from shape show "parse_date p s ! 4 = CHR ''-''" by blast
  from shape show "parse_date p s ! 7 = CHR ''-''" by blast
  from shape show "\<forall>i<10. i \<noteq> 4 \<and> i \<noteq> 7 \<longrightarrow> parse_date p s ! i \<in> set ''0123456789''" by blast
next
  assume a: "p (date_header e) = Inl x \<and>
    (\<forall>r\<in>set df. \<not> (role_title r = Str (subject e) \<and> applied_date r = Str []))"
  then have d: "parse_date p (date_header e) = []" by (simp add: parse_date_Inl)
  with a have "event_key p e \<notin> row_key ` set df"
    by (auto simp: event_key_def row_key_def image_iff)
  then show "confirm_event p df e =
        df @ [\<lparr>company = Str (from_header e), role_title = Str (subject e), job_link = Str [],
               applied_date = Str [], status = Str ''Applied'', job_text = Str (snippet e),
               summary = Str [], skills = Str [], salary = Str []\<rparr>]"
    by (simp add: confirm_event_new confirmation_row_def d)
next
  assume a: "p (date_header e) = Inl x \<and> (\<forall>r\<in>set df. role_title r \<noteq> Str (subject e))"
  then have d: "parse_date p (date_header e) = []" by (simp add: parse_date_Inl)
  from a show "reject_event p df e =
        df @ [\<lparr>company = Str (from_header e), role_title = Str (subject e), job_link = Str [],
               applied_date = Str [], status = Str ''Rejected'', job_text = Str (snippet e),
               summary = Str [], skills = Str [], salary = Str []\<rparr>]"
    by (simp add: reject_event_unmatched rejection_row_def d)
next
  assume a: "e \<in> set es \<and> p (date_header e) = Inl x"
  then have d: "parse_date p (date_header e) = []" by (simp add: parse_date_Inl)
  from a show "\<exists>r\<in>set (scan_confirmations p es df).
          role_title r = Str (subject e) \<and> applied_date r = Str []"
    using scan_confirmations_recorded_row [of e es p df] d by simp
  from a show "\<exists>r\<in>set (scan_rejections p es df).
          role_title r = Str (subject e) \<and> status r = Str ''Rejected''"
    by (simp add: scan_rejections_trace)
qed

text \<open>
  The theorem at the example: the empty \<open>Date\<close> header normalizes to the empty string and
  its event is still inserted; the header \<open>23:30 -0800\<close> on 10 January normalizes to
  \<open>2024-01-10\<close>, the date as written, although it is 11 January in UTC.
\<close>

theorem parse_date_never_fails_witness:
  "example_parser [] = Inl (PyException ''ValueError'') \<and>
   parse_date example_parser [] = [] \<and>
   parse_date example_parser ''Wed, 10 Jan 2024 23:30:00 -0800'' = ''2024-01-10'' \<and>
   confirm_event example_parser example_ledger rejection_example =
     example_ledger @
       [\<lparr>company = Str ''[email protected]'', role_title = Str ''Software Engineer'',
         job_link = Str [], applied_date = Str [], status = Str ''Applied'',
         job_text = Str ''not moving forward'', summary = Str [], skills = Str [],
         salary = Str []\<rparr>] \<and>
   (\<exists>r\<in>set (scan_rejections example_parser [confirmation_example, rejection_example]
               example_ledger).
      role_title r = Str ''Software Engineer'' \<and> status r = Str ''Rejected'')"
proof -
  let ?s = "''Wed, 10 Jan 2024 23:30:00 -0800''"
  let ?dt = "\<lparr>dt_year = 2024, dt_month = 1, dt_day = 10, dt_hour = 23, dt_minute = 30,
              dt_second = 0, dt_utcoffset = Some (- 28800)\<rparr>"
  have p0: "example_parser [] = Inl (PyException ''ValueError'')"
    by (simp add: example_parser_def)
  have p1: "example_parser ?s = Inr ?dt"
    by (simp add: example_parser_def)
  have pe: "example_parser (date_header rejection_example) = Inl (PyException ''ValueError'')"
    by (simp add: example_parser_def rejection_example_def)
  have nodup: "\<forall>r\<in>set example_ledger.
      \<not> (role_title r = Str (subject rejection_example) \<and> applied_date r = Str [])"
    by (simp add: example_ledger_def)
  have mem: "rejection_example \<in> set [confirmation_example, rejection_example]" by simp
  note inst0 = parse_date_never_fails
    [where p = example_parser and s = "[]" and x = "PyException ''ValueError''"
       and e = rejection_example and df = example_ledger
       and es = "[confirmation_example, rejection_example]"]
  note inst1 = parse_date_never_fails
    [where p = example_parser and s = ?s and dt = ?dt]
  have a: "parse_date example_parser [] = []" using inst0 p0 by blast
  have "parse_date example_parser ?s =
      zero_pad 4 (dt_year ?dt) @ ''-'' @ zero_pad 2 (dt_month ?dt) @ ''-'' @ zero_pad 2 (dt_day ?dt)"
    using inst1 p1 by blast
  also have "\<dots> = ''2024-01-10''" by code_simp
  finally have b: "parse_date example_parser ?s = ''2024-01-10''" .
  have c: "confirm_event example_parser example_ledger rejection_example =
     example_ledger @
       [\<lparr>company = Str (from_header rejection_example), role_title = Str (subject rejection_example),
         job_link = Str [], applied_date = Str [], status = Str ''Applied'',
         job_text = Str (snippet rejection_example), summary = Str [], skills = Str [],
         salary = Str []\<rparr>]"
    using inst0 pe nodup by blast
  have d: "\<exists>r\<in>set (scan_rejections example_parser [confirmation_example, rejection_example] example_ledger).
      role_title r = Str (subject rejection_example) \<and> status r = Str ''Rejected''"
    using inst0 pe mem by blast
  show ?thesis using p0 a b c d by (simp add: rejection_example_def)
qed

section \<open>The ledger store\<close>

lemma update_absent: "k \<notin> fst ` set al \<Longrightarrow> AList.update k v al = al @ [(k, v)]"
  by (induction al) auto

lemma ensure_column_present:
  "col \<in> set (df_columns df) \<Longrightarrow> ensure_column col df = df"
  by (simp add: ensure_column_def)

lemma ensure_column_absent:
  assumes "rectangular df" and "col \<notin> set (df_columns df)"
  shows "ensure_column col df =
    \<lparr>df_columns = df_columns df @ [col], df_rows = map (\<lambda>r. r @ [(col, Str [])]) (df_rows df)\<rparr>"
proof -
  have "AList.update col (Str []) r = r @ [(col, Str [])]" if "r \<in> set (df_rows df)" for r
  proof -
    from assms(1) that have "map fst r = df_columns df"
      by (simp add: rectangular_def list_all_iff)
    with assms(2) have "col \<notin> fst ` set r" by (metis set_map)
    then show ?thesis by (rule update_absent)
  qed
  then have "map (AList.update col (Str [])) (df_rows df) = map (\<lambda>r. r @ [(col, Str [])]) (df_rows df)"
    by simp
  with assms(2) show ?thesis by (simp add: ensure_column_def set_column_def)
qed

lemma rectangular_ensure_column: "rectangular df \<Longrightarrow> rectangular (ensure_column col df)"
  by (cases "col \<in> set (df_columns df)")
     (simp_all add: ensure_column_present ensure_column_absent, simp add: rectangular_def list_all_iff)

lemma fold_ensure_column:
  "rectangular df \<Longrightarrow> distinct cols \<Longrightarrow>
   fold ensure_column cols df =
     \<lparr>df_columns = df_columns df @ missing_columns cols df,
      df_rows = map (\<lambda>r. r @ blank_cells (missing_columns cols df)) (df_rows df)\<rparr>"
proof (induction cols arbitrary: df)
  case Nil
  show ?case by (simp add: missing_columns_def blank_cells_def)
next
  case (Cons c cols)
  from Cons.prems have dist: "distinct cols" and notin: "c \<notin> set cols" by simp_all
  show ?case
  proof (cases "c \<in> set (df_columns df)")
    case True
    then have "missing_columns (c # cols) df = missing_columns cols df"
      by (simp add: missing_columns_def)
    with True Cons.IH [OF Cons.prems(1) dist] show ?thesis
      by (simp add: ensure_column_present)
  next
    case False
    let ?df1 = "ensure_column c df"
    have df1: "?df1 = \<lparr>df_columns = df_columns df @ [c],
                       df_rows = map (\<lambda>r. r @ [(c, Str [])]) (df_rows df)\<rparr>"
      using Cons.prems(1) False by (rule ensure_column_absent)
    have rect: "rectangular ?df1" using Cons.prems(1) by (rule rectangular_ensure_column)
    have "missing_columns cols ?df1 = missing_columns cols df"
      using notin by (auto simp: missing_columns_def df1 intro!: filter_cong)
    moreover have "missing_columns (c # cols) df = c # missing_columns cols df"
      using False by (simp add: missing_columns_def)
    ultimately show ?thesis
      using Cons.IH [OF rect dist] by (simp add: df1 blank_cells_def)
  qed
qed

lemma distinct_schema: "distinct schema"
  by (simp add: schema_def)

lemma load_jobs_df_Some:
  "rectangular f \<Longrightarrow>
   load_jobs_df (Some f) =
     \<lparr>df_columns = df_columns f @ missing_columns schema f,
      df_rows = map (\<lambda>r. r @ blank_cells (missing_columns schema f)) (df_rows f)\<rparr>"
  by (simp add: load_jobs_df_def fold_ensure_column distinct_schema)

lemma load_jobs_df_None: "load_jobs_df None = \<lparr>df_columns = schema, df_rows = []\<rparr>"
proof -
  have "rectangular (empty_frame schema)" by (simp add: rectangular_def empty_frame_def)
  then have "fold ensure_column schema (empty_frame schema) =
     \<lparr>df_columns = df_columns (empty_frame schema) @ missing_columns schema (empty_frame schema),
      df_rows = map (\<lambda>r. r @ blank_cells (missing_columns schema (empty_frame schema)))
                  (df_rows (empty_frame schema))\<rparr>"
    using distinct_schema by (rule fold_ensure_column)
  moreover have "missing_columns schema (empty_frame schema) = []"
    by (simp add: missing_columns_def empty_frame_def)
  ultimately show ?thesis by (simp add: load_jobs_df_def empty_frame_def)
qed

lemma map_of_blank_cells:
  "map_of (blank_cells cols) c = (if c \<in> set cols then Some (Str []) else None)"
  by (induction cols) (simp_all add: blank_cells_def)

lemma map_of_completed_row:
  "map_of (r @ blank_cells cols) c =
     (case map_of r c of Some v \<Rightarrow> Some v
      | None \<Rightarrow> if c \<in> set cols then Some (Str []) else None)"
  by (simp add: map_of_append map_add_def map_of_blank_cells split: option.splits)

lemma map_of_rectangular_row:
  "map fst r = cols \<Longrightarrow> c \<in> set cols \<Longrightarrow> map_of r c \<noteq> None"
  by (metis map_of_eq_None_iff set_map)

lemma map_of_rectangular_row_absent:
  "map fst r = cols \<Longrightarrow> c \<notin> set cols \<Longrightarrow> map_of r c = None"
  by (metis map_of_eq_None_iff set_map)

lemma columns_load_jobs_df:
  "rectangular f \<Longrightarrow> set (df_columns (load_jobs_df (Some f))) = set (df_columns f) \<union> set schema"
  by (auto simp: load_jobs_df_Some missing_columns_def)

lemma rectangular_load_jobs_df:
  "rectangular f \<Longrightarrow> rectangular (load_jobs_df (Some f))"
  by (simp add: load_jobs_df_Some) (simp add: rectangular_def list_all_iff blank_cells_def comp_def)

lemma nth_rows_load_jobs_df:
  assumes "rectangular f" and "i < length (df_rows f)"
  shows "map_of (df_rows (load_jobs_df (Some f)) ! i) c =
     (if c \<in> set (df_columns f) then map_of (df_rows f ! i) c
      else if c \<in> set schema then Some (Str []) else None)"
proof -
  have keys: "map fst (df_rows f ! i) = df_columns f"
    using assms by (simp add: rectangular_def list_all_iff)
  show ?thesis
  proof (cases "c \<in> set (df_columns f)")
    case True
    with keys have "map_of (df_rows f ! i) c \<noteq> None" by (rule map_of_rectangular_row)
    with True assms show ?thesis
      by (auto simp: load_jobs_df_Some map_of_completed_row)
  next
    case False
    with keys have "map_of (df_rows f ! i) c = None" by (rule map_of_rectangular_row_absent)
    with False assms show ?thesis
      by (simp add: load_jobs_df_Some map_add_def map_of_blank_cells missing_columns_def)
  qed
qed

lemma rows_load_jobs_df_complete:
  assumes "rectangular f" and "r \<in> set (df_rows (load_jobs_df (Some f)))" and "c \<in> set schema"
  shows "map_of r c \<noteq> None"
proof -
  have "set schema \<subseteq> set (df_columns (load_jobs_df (Some f)))"
    using assms(1) by (simp add: columns_load_jobs_df)
  moreover have "map fst r = df_columns (load_jobs_df (Some f))"
    using rectangular_load_jobs_df [OF assms(1)] assms(2) by (simp add: rectangular_def list_all_iff)
  ultimately show ?thesis using assms(3) map_of_rectangular_row [of r _ c] by blast
qed

lemma rows_load_jobs_df_blank:
  assumes "rectangular f" and "r \<in> set (df_rows (load_jobs_df (Some f)))"
    and "c \<in> set schema" and "c \<notin> set (df_columns f)"
  shows "map_of r c = Some (Str [])"
proof -
  have len: "length (df_rows (load_jobs_df (Some f))) = length (df_rows f)"
    using assms(1) by (simp add: load_jobs_df_Some)
  from assms(2) obtain i where "i < length (df_rows f)" "r = df_rows (load_jobs_df (Some f)) ! i"
    using len by (auto simp: in_set_conv_nth)
  then show ?thesis using assms(1,3,4) by (simp add: nth_rows_load_jobs_df)
qed

lemma job_row_of_complete:
  "\<forall>c\<in>set schema. map_of r c \<noteq> None \<Longrightarrow>
   \<exists>row. job_row_of r = Some row \<and> salary row = the (map_of r ''salary'')"
  by (simp add: job_row_of_def list_all_iff)

lemma ledger_of_complete:
  assumes "\<forall>r\<in>set (df_rows df). \<forall>c\<in>set schema. map_of r c \<noteq> None"
  shows "ledger_of df = Some (map (\<lambda>r. the (job_row_of r)) (df_rows df))"
proof -
  have "job_row_of r \<noteq> None" if "r \<in> set (df_rows df)" for r
    using assms that job_row_of_complete [of r] by auto
  then show ?thesis by (simp add: ledger_of_def list_all_iff)
qed

text \<open>
  Claim C8. Loading a ledger file: the frame returned has every column of the schema, it
  is rectangular and has the rows of the file, each row keeps the cells of the columns the
  file has and holds the empty string in every schema column the file lacks; so every
  row has all nine columns, and a file without the \<open>salary\<close> column loads with
  \<open>salary == ""\<close> in every row. The loaded frame converts to a ledger of row records.
  When no file exists the result is the empty frame with exactly the nine columns.
\<close>

theorem load_jobs_df_schema_complete:
  "(rectangular f \<longrightarrow>
      set schema \<subseteq> set (df_columns (load_jobs_df (Some f))) \<and>
      rectangular (load_jobs_df (Some f)) \<and>
      length (df_rows (load_jobs_df (Some f))) = length (df_rows f) \<and>
      (\<forall>i<length (df_rows f). \<forall>c.
          (c \<in> set (df_columns f) \<longrightarrow>
             map_of (df_rows (load_jobs_df (Some f)) ! i) c = map_of (df_rows f ! i) c) \<and>
          (c \<in> set schema \<and> c \<notin> set (df_columns f) \<longrightarrow>
             map_of (df_rows (load_jobs_df (Some f)) ! i) c = Some (Str []))) \<and>
      (\<forall>r\<in>set (df_rows (load_jobs_df (Some f))). \<forall>c\<in>set schema. map_of r c \<noteq> None) \<and>
      (''salary'' \<notin> set (df_columns f) \<longrightarrow>
         (\<forall>r\<in>set (df_rows (load_jobs_df (Some f))). map_of r ''salary'' = Some (Str []))) \<and>
      (\<exists>l. ledger_of (load_jobs_df (Some f)) = Some l \<and> length l = length (df_rows f) \<and>
           (''salary'' \<notin> set (df_columns f) \<longrightarrow> (\<forall>row\<in>set l. salary row = Str [])))) \<and>
   load_jobs_df None = \<lparr>df_columns = schema, df_rows = []\<rparr> \<and>
   ledger_of (load_jobs_df None) = Some []"
proof (intro conjI impI)
  show none: "load_jobs_df None = \<lparr>df_columns = schema, df_rows = []\<rparr>"
    by (rule load_jobs_df_None)
  show "ledger_of (load_jobs_df None) = Some []"
    by (simp add: none ledger_of_def)
next
  assume rect: "rectangular f"
  let ?df = "load_jobs_df (Some f)"
  show "set schema \<subseteq> set (df_columns ?df)" using rect by (simp add: columns_load_jobs_df)
  show "rectangular ?df" using rect by (rule rectangular_load_jobs_df)
  show len: "length (df_rows ?df) = length (df_rows f)" using rect by (simp add: load_jobs_df_Some)
  show "\<forall>i<length (df_rows f). \<forall>c.
          (c \<in> set (df_columns f) \<longrightarrow> map_of (df_rows ?df ! i) c = map_of (df_rows f ! i) c) \<and>
          (c \<in> set schema \<and> c \<notin> set (df_columns f) \<longrightarrow> map_of (df_rows ?df ! i) c = Some (Str []))"
    using rect by (simp add: nth_rows_load_jobs_df)
  show complete: "\<forall>r\<in>set (df_rows ?df). \<forall>c\<in>set schema. map_of r c \<noteq> None"
    using rows_load_jobs_df_complete [OF rect] by blast
  have salary_in: "''salary'' \<in> set schema" by (simp add: schema_def)
  have blank: "map_of r ''salary'' = Some (Str [])"
    if "''salary'' \<notin> set (df_columns f)" "r \<in> set (df_rows ?df)" for r
    using rect that(2) salary_in that(1) by (rule rows_load_jobs_df_blank)
  show "''salary'' \<notin> set (df_columns f) \<Longrightarrow> \<forall>r\<in>set (df_rows ?df). map_of r ''salary'' = Some (Str [])"
    using blank by blast
  let ?l = "map (\<lambda>r. the (job_row_of r)) (df_rows ?df)"
  have l: "ledger_of ?df = Some ?l" using complete by (rule ledger_of_complete)
  have "salary row = Str []" if no: "''salary'' \<notin> set (df_columns f)" and row: "row \<in> set ?l" for row
  proof -
    from row obtain r where r: "r \<in> set (df_rows ?df)" "row = the (job_row_of r)" by auto
    from complete r(1) have "\<forall>c\<in>set schema. map_of r c \<noteq> None" by blast
    then obtain row' where "job_row_of r = Some row'" "salary row' = the (map_of r ''salary'')"
      using job_row_of_complete by blast
    with r(2) blank [OF no r(1)] show ?thesis by simp
  qed
  with l len show "\<exists>l. ledger_of ?df = Some l \<and> length l = length (df_rows f) \<and>
           (''salary'' \<notin> set (df_columns f) \<longrightarrow> (\<forall>row\<in>set l. salary row = Str []))"
    by auto
qed

text \<open>
  The theorem at the example: the file without \<open>salary\<close> loads with the empty string there
  and with its \<open>company\<close> cell as it was.
\<close>

theorem load_jobs_df_schema_complete_witness:
  "rectangular legacy_jobs_csv \<and> ''salary'' \<notin> set (df_columns legacy_jobs_csv) \<and>
   map_of (df_rows (load_jobs_df (Some legacy_jobs_csv)) ! 0) ''salary'' = Some (Str []) \<and>
   map_of (df_rows (load_jobs_df (Some legacy_jobs_csv)) ! 0) ''company'' = Some (Str ''Acme'') \<and>
   length (df_rows (load_jobs_df (Some legacy_jobs_csv))) = 1"
proof -
  have rect: "rectangular legacy_jobs_csv"
    by (simp add: rectangular_def legacy_jobs_csv_def)
  have no: "''salary'' \<notin> set (df_columns legacy_jobs_csv)"
    by (simp add: legacy_jobs_csv_def)
  have sal: "''salary'' \<in> set schema" by (simp add: schema_def)
  have co: "''company'' \<in> set (df_columns legacy_jobs_csv)" by (simp add: legacy_jobs_csv_def)
  have n: "length (df_rows legacy_jobs_csv) = 1" by (simp add: legacy_jobs_csv_def)
  have c0: "map_of (df_rows legacy_jobs_csv ! 0) ''company'' = Some (Str ''Acme'')"
    by (simp add: legacy_jobs_csv_def)
  from load_jobs_df_schema_complete [of legacy_jobs_csv] rect
  have *: "\<forall>i<length (df_rows legacy_jobs_csv). \<forall>c.
          (c \<in> set (df_columns legacy_jobs_csv) \<longrightarrow>
             map_of (df_rows (load_jobs_df (Some legacy_jobs_csv)) ! i) c = map_of (df_rows legacy_jobs_csv ! i) c) \<and>
          (c \<in> set schema \<and> c \<notin> set (df_columns legacy_jobs_csv) \<longrightarrow>
             map_of (df_rows (load_jobs_df (Some legacy_jobs_csv)) ! i) c = Some (Str []))"
    and len: "length (df_rows (load_jobs_df (Some legacy_jobs_csv))) = length (df_rows legacy_jobs_csv)"
    by blast+
  from * n have "map_of (df_rows (load_jobs_df (Some legacy_jobs_csv)) ! 0) ''salary'' = Some (Str [])"
    using sal no by simp
  moreover from * n have "map_of (df_rows (load_jobs_df (Some legacy_jobs_csv)) ! 0) ''company'' = Some (Str ''Acme'')"
    using co c0 by simp
  ultimately show ?thesis using rect no len n by simp
qed

section \<open>The enrichment backfill\<close>

lemma try_summarize_raises:
  "sj idx row = Inl e \<Longrightarrow> try_summarize sj idx row u = (row, u)"
  by (simp add: try_summarize_def)

lemma try_summarize_completes:
  "sj idx row = Inr result \<Longrightarrow> skills_joinable result \<Longrightarrow>
   try_summarize sj idx row u =
     (row\<lparr>summary := get_summary result, skills := Str (skills_text result),
          salary := get_salary result\<rparr>, u + 1)"
  by (auto simp: try_summarize_def Let_def skills_joinable_def skills_text_def get_summary_def
      get_salary_def join_cells_def split: option.splits skills_value.splits)

lemma try_summarize_join_fails:
  "sj idx row = Inr result \<Longrightarrow> \<not> skills_joinable result \<Longrightarrow>
   try_summarize sj idx row u = (row\<lparr>summary := get_summary result\<rparr>, u)"
  by (auto simp: try_summarize_def Let_def skills_joinable_def get_summary_def
      join_cells_def split: option.splits skills_value.splits)

lemma fst_try_summarize: "fst (try_summarize sj idx row u) = fst (try_summarize sj idx row 0)"
proof (cases "sj idx row")
  case (Inl e)
  then show ?thesis by (simp add: try_summarize_raises)
next
  case (Inr result)
  then show ?thesis
    by (cases "skills_joinable result") (simp_all add: try_summarize_completes try_summarize_join_fails)
qed

lemma snd_try_summarize:
  "snd (try_summarize sj idx row u) = (if completes sj idx row then u + 1 else u)"
proof (cases "sj idx row")
  case (Inl e)
  then show ?thesis by (simp add: try_summarize_raises completes_def)
next
  case (Inr result)
  then show ?thesis
    by (cases "skills_joinable result")
       (simp_all add: try_summarize_completes try_summarize_join_fails completes_def)
qed

lemma length_process_rows: "length (fst (process_rows sj idx rows u)) = length rows"
  by (induction rows arbitrary: idx u) (simp_all add: split_beta Let_def)

lemma nth_process_rows:
  "i < length rows \<Longrightarrow>
   fst (process_rows sj idx rows u) ! i =
     (if has_summary (summary (rows ! i)) then rows ! i
      else fst (try_summarize sj (idx + i) (rows ! i) 0))"
proof (induction rows arbitrary: idx u i)
  case Nil
  then show ?case by simp
next
  case (Cons row rest)
  show ?case
  proof (cases i)
    case 0
    then show ?thesis
      using fst_try_summarize [of sj idx row u] by (simp add: split_beta Let_def)
  next
    case (Suc j)
    with Cons.prems have "j < length rest" by simp
    then show ?thesis using Suc Cons.IH [of j "Suc idx"] by (simp add: split_beta Let_def)
  qed
qed

lemma snd_process_rows:
  "snd (process_rows sj idx rows u) =
     u + length (filter (\<lambda>(i, row). \<not> has_summary (summary row) \<and> completes sj i row)
                  (enumerate idx rows))"
  by (induction rows arbitrary: idx u) (simp_all add: split_beta Let_def snd_try_summarize)

lemma drop_leading_Nil: "drop_leading ws [] = []"
proof -
  have "find (\<lambda>w. w \<noteq> [] \<and> take (length w) [] = w) ws = None"
    by (auto simp: find_None_iff)
  then show ?thesis by (subst drop_leading.simps) simp
qed

lemma whitespace_nonempty: "w \<in> set whitespace \<Longrightarrow> w \<noteq> []"
  by (auto simp: whitespace_def)

lemma whitespace_length_by_head:
  "\<forall>v\<in>set whitespace. \<forall>w\<in>set whitespace. hd v = hd w \<longrightarrow> length v = length w"
  by code_simp

lemma whitespace_prefix_free:
  assumes "v \<in> set whitespace" "w \<in> set whitespace" "take (length v) (w @ rest) = v"
  shows "v = w"
proof -
  have v: "v \<noteq> []" and w: "w \<noteq> []" using assms(1,2) by (simp_all add: whitespace_nonempty)
  from assms(3) v have "hd v = hd (take (length v) (w @ rest))" by simp
  also have "\<dots> = hd w" using v w by (cases w; cases v) simp_all
  finally have "length v = length w" using whitespace_length_by_head assms(1,2) by blast
  with assms(3) show ?thesis by simp
qed

lemma drop_leading_whitespace:
  assumes "w \<in> set whitespace"
  shows "drop_leading whitespace (w @ rest) = drop_leading whitespace rest"
proof -
  let ?P = "\<lambda>v. v \<noteq> [] \<and> take (length v) (w @ rest) = v"
  have "?P w" using assms by (simp add: whitespace_nonempty)
  with assms have "find ?P whitespace \<noteq> None" by (auto simp: find_None_iff)
  then obtain v where v: "find ?P whitespace = Some v" by blast
  then have "v \<in> set whitespace" "take (length v) (w @ rest) = v"
    by (auto simp: find_Some_iff)
  with assms have "v = w" by (blast intro: whitespace_prefix_free)
  with v show ?thesis by (subst drop_leading.simps) simp
qed

lemma lstrip_whitespace_only:
  "set ts \<subseteq> set whitespace \<Longrightarrow> lstrip (concat ts) = []"
  by (induction ts) (simp_all add: lstrip_def drop_leading_Nil drop_leading_whitespace)

lemma strip_whitespace_only: "set ts \<subseteq> set whitespace \<Longrightarrow> strip (concat ts) = []"
  by (simp add: strip_def lstrip_whitespace_only rstrip_def drop_leading_Nil)

lemma has_summary_iff: "has_summary c \<longleftrightarrow> (\<exists>s. c = Str s \<and> strip s \<noteq> [])"
  by (cases c) simp_all

text \<open>
  What holds of the guard. A row whose summary is a string that is not empty after
  \<open>strip()\<close> comes out of a backfill pass with every field as it was, whatever the
  summarizer returns, and the pass keeps the number of rows. A row whose summary is a
  string of whitespace characters only (the empty string included) or a missing value is
  eligible, and every eligible row comes out as the \<open>try\<close> block leaves it.
\<close>

lemma process_jobs_keeps_summarized:
  "(i < length df \<and> summary (df ! i) = Str s \<and> strip s \<noteq> [] \<longrightarrow>
      fst (process_jobs sj df) ! i = df ! i) \<and>
   length (fst (process_jobs sj df)) = length df \<and>
   (set ts \<subseteq> set whitespace \<longrightarrow> \<not> has_summary (Str (concat ts))) \<and>
   \<not> has_summary NaN \<and>
   (i < length df \<and> \<not> has_summary (summary (df ! i)) \<longrightarrow>
      fst (process_jobs sj df) ! i = fst (try_summarize sj i (df ! i) 0))"
proof (intro conjI impI)
  show "fst (process_jobs sj df) ! i = df ! i"
    if "i < length df \<and> summary (df ! i) = Str s \<and> strip s \<noteq> []"
    using that by (simp add: process_jobs_def nth_process_rows)
  show "length (fst (process_jobs sj df)) = length df"
    by (simp add: process_jobs_def length_process_rows)
  show "\<not> has_summary (Str (concat ts))" if "set ts \<subseteq> set whitespace"
    using that by (simp add: strip_whitespace_only)
  show "\<not> has_summary NaN" by simp
  show "fst (process_jobs sj df) ! i = fst (try_summarize sj i (df ! i) 0)"
    if "i < length df \<and> \<not> has_summary (summary (df ! i))"
    using that by (simp add: process_jobs_def nth_process_rows)
qed

text \<open>
  On the example rows: the enriched row is left alone; the row with the missing summary
  and the row whose summary is a no-break space and a space are enriched.
\<close>

lemma process_jobs_keeps_summarized_example:
  "strip ''Maintains the billing platform'' = ''Maintains the billing platform'' \<and>
   strip [CHR 0xC2, CHR 0xA0, CHR 0x20] = [] \<and>
   process_jobs good_summarizer [enriched_row, pending_row, blank_summary_row] =
     ([enriched_row,
       pending_row\<lparr>summary := Str ''Builds backend services'', skills := Str ''SQL, Python'',
                   salary := Str ''unknown''\<rparr>,
       blank_summary_row\<lparr>summary := Str ''Builds backend services'',
                         skills := Str ''SQL, Python'', salary := Str ''unknown''\<rparr>], 2)"
  by code_simp

text \<open>
  Claim C5, where the code departs from it. The claim: a record whose summary is not empty
  is left unchanged by a backfill pass, and only records with an empty or whitespace-only
  summary are eligible. The source says the same above its guard (\<open>Skip rows that already
  have a summary\<close>), but the guard tests \<open>isinstance(..., str)\<close> first, which is there to
  keep missing values away from \<open>strip()\<close>. The summary cell of the first row below holds a
  value that is not empty and is no \<open>str\<close> (the boolean \<open>True\<close>, which is what \<open>read_csv\<close>
  makes of the text \<open>True\<close> in a column that also has empty fields): the guard lets the row
  through, and the pass overwrites its summary, skills and salary and counts it.
\<close>

theorem process_jobs_overwrites_nonstring_summary:
  "summary boolean_summary_row = Other ''True'' \<and>
   strip ''True'' \<noteq> [] \<and>
   process_jobs good_summarizer [boolean_summary_row, pending_row] =
     ([boolean_summary_row\<lparr>summary := Str ''Builds backend services'',
                            skills := Str ''SQL, Python'', salary := Str ''unknown''\<rparr>,
       pending_row\<lparr>summary := Str ''Builds backend services'',
                    skills := Str ''SQL, Python'', salary := Str ''unknown''\<rparr>], 2) \<and>
   summary (fst (process_jobs good_summarizer [boolean_summary_row, pending_row]) ! 0) \<noteq>
     summary boolean_summary_row"
  by code_simp

text \<open>
  Claim C6, where the code departs from it. The summarizer returns a dictionary whose
  \<open>skills\<close> list holds a number. The summary is assigned first; the join then raises
  \<open>TypeError\<close>, which the \<open>except\<close> swallows. The row is left with the new summary and its old
  skills and salary, the counter is not incremented, and the row is no longer eligible:
  a later pass with a well-behaved summarizer skips it.
\<close>

theorem process_jobs_partial_write:
  "\<not> has_summary (summary pending_row) \<and>
   process_jobs malformed_summarizer [enriched_row, pending_row] =
     ([enriched_row, pending_row\<lparr>summary := Str ''Builds backend services''\<rparr>], 0) \<and>
   fst (process_jobs malformed_summarizer [enriched_row, pending_row]) ! 1 \<noteq> pending_row \<and>
   has_summary (summary (fst (process_jobs malformed_summarizer [enriched_row, pending_row]) ! 1)) \<and>
   process_jobs good_summarizer (fst (process_jobs malformed_summarizer [enriched_row, pending_row])) =
     ([enriched_row, pending_row\<lparr>summary := Str ''Builds backend services''\<rparr>], 0)"
  by code_simp

text \<open>
  What does hold of partial failure: when every dictionary the summarizer returns has a
  \<open>skills\<close> value that can be joined, the counter is the number of eligible rows on which
  the call returned, and a row on which it raised is left with every field as it was.
\<close>

lemma process_jobs_isolates_raised:
  assumes wf: "\<And>i row result. sj i row = Inr result \<Longrightarrow> skills_joinable result"
  shows "snd (process_jobs sj df) =
           length (filter (\<lambda>(i, row). \<not> has_summary (summary row) \<and> \<not> isl (sj i row))
                     (enumerate 0 df))"
    and "i < length df \<Longrightarrow> sj i (df ! i) = Inl e \<Longrightarrow> fst (process_jobs sj df) ! i = df ! i"
proof -
  have "completes sj i row = (\<not> isl (sj i row))" for i row
    using wf [of i row] by (cases "sj i row") (simp_all add: completes_def)
  then show "snd (process_jobs sj df) =
           length (filter (\<lambda>(i, row). \<not> has_summary (summary row) \<and> \<not> isl (sj i row))
                     (enumerate 0 df))"
    by (simp add: process_jobs_def snd_process_rows)
  show "fst (process_jobs sj df) ! i = df ! i" if "i < length df" "sj i (df ! i) = Inl e"
    using that by (simp add: process_jobs_def nth_process_rows try_summarize_raises)
qed

text \<open>
  Claim C7. An eligible row for which the call returns a dictionary whose \<open>skills\<close> value
  is a list of strings or is no list: the pass stores the returned summary as it is (the
  empty string if the key is absent), the list joined with \<open>", "\<close> in the order returned, or
  the \<open>str()\<close> of a value that is no list, as \<open>skills\<close>, and the returned salary as it is;
  every other field is unchanged, and the counter goes up by one for the row. The final
  counter is the number of eligible rows whose call completed.
\<close>

theorem process_jobs_writes_result:
  "(i < length df \<and> \<not> has_summary (summary (df ! i)) \<and> sj i (df ! i) = Inr result \<and>
    skills_joinable result \<longrightarrow>
      fst (process_jobs sj df) ! i =
        (df ! i)\<lparr>summary := (case res_summary result of Some v \<Rightarrow> v | None \<Rightarrow> Str []),
                 skills := Str (case res_skills result of
                                  Some (SkillsList xs) \<Rightarrow> str_join '', '' (map py_str xs)
                                | Some (SkillsScalar v) \<Rightarrow> py_str v
                                | None \<Rightarrow> []),
                 salary := (case res_salary result of Some v \<Rightarrow> v | None \<Rightarrow> Str [])\<rparr> \<and>
      try_summarize sj i (df ! i) u =
        (fst (process_jobs sj df) ! i, u + 1)) \<and>
   (skills_joinable result \<longleftrightarrow>
      (\<forall>xs. res_skills result = Some (SkillsList xs) \<longrightarrow> list_all is_str xs)) \<and>
   snd (process_jobs sj df) =
     length (filter (\<lambda>(i, row). \<not> has_summary (summary row) \<and>
                        (case sj i row of Inl e \<Rightarrow> False | Inr r \<Rightarrow> skills_joinable r))
               (enumerate 0 df))"
proof (intro conjI impI)
  assume a: "i < length df \<and> \<not> has_summary (summary (df ! i)) \<and> sj i (df ! i) = Inr result \<and>
    skills_joinable result"
  then have t: "try_summarize sj i (df ! i) w =
     ((df ! i)\<lparr>summary := get_summary result, skills := Str (skills_text result),
          salary := get_salary result\<rparr>, w + 1)" for w
    by (simp add: try_summarize_completes)
  from a have n: "fst (process_jobs sj df) ! i = fst (try_summarize sj i (df ! i) 0)"
    by (simp add: process_jobs_def nth_process_rows)
  show "fst (process_jobs sj df) ! i =
        (df ! i)\<lparr>summary := (case res_summary result of Some v \<Rightarrow> v | None \<Rightarrow> Str []),
                 skills := Str (case res_skills result of
                                  Some (SkillsList xs) \<Rightarrow> str_join '', '' (map py_str xs)
                                | Some (SkillsScalar v) \<Rightarrow> py_str v
                                | None \<Rightarrow> []),
                 salary := (case res_salary result of Some v \<Rightarrow> v | None \<Rightarrow> Str [])\<rparr>"
    by (simp add: n t get_summary_def get_salary_def skills_text_def)
  show "try_summarize sj i (df ! i) u = (fst (process_jobs sj df) ! i, u + 1)"
    by (simp add: n t)
next
  show "skills_joinable result \<longleftrightarrow>
      (\<forall>xs. res_skills result = Some (SkillsList xs) \<longrightarrow> list_all is_str xs)"
    by (auto simp: skills_joinable_def split: option.splits skills_value.splits)
  show "snd (process_jobs sj df) =
     length (filter (\<lambda>(i, row). \<not> has_summary (summary row) \<and>
                        (case sj i row of Inl e \<Rightarrow> False | Inr r \<Rightarrow> skills_joinable r))
               (enumerate 0 df))"
    by (simp add: process_jobs_def snd_process_rows completes_def)
qed

text \<open>
  The theorem at the example: \<open>["SQL", "Python"]\<close> is stored as \<open>"SQL, Python"\<close>, in the order
  returned, and the counter is one.
\<close>

theorem process_jobs_writes_result_witness:
  "\<not> has_summary (summary ([enriched_row, pending_row] ! 1)) \<and>
   good_summarizer 1 ([enriched_row, pending_row] ! 1) = Inr good_result \<and>
   skills_joinable good_result \<and>
   fst (process_jobs good_summarizer [enriched_row, pending_row]) ! 1 =
     pending_row\<lparr>summary := Str ''Builds backend services'', skills := Str ''SQL, Python'',
                 salary := Str ''unknown''\<rparr> \<and>
   snd (process_jobs good_summarizer [enriched_row, pending_row]) = 1"
proof -
  let ?df = "[enriched_row, pending_row]"
  have h1: "\<not> has_summary (summary (?df ! 1))" by (simp add: pending_row_def)
  have h2: "good_summarizer 1 (?df ! 1) = Inr good_result" by (simp add: good_summarizer_def)
  have h3: "skills_joinable good_result" by (simp add: skills_joinable_def good_result_def)
  have len: "(1::nat) < length ?df" by simp
  note inst = process_jobs_writes_result
    [where i = 1 and df = ?df and sj = good_summarizer and result = good_result]
  have a: "fst (process_jobs good_summarizer ?df) ! 1 =
        (?df ! 1)\<lparr>summary := (case res_summary good_result of Some v \<Rightarrow> v | None \<Rightarrow> Str []),
                 skills := Str (case res_skills good_result of
                                  Some (SkillsList xs) \<Rightarrow> str_join '', '' (map py_str xs)
                                | Some (SkillsScalar v) \<Rightarrow> py_str v
                                | None \<Rightarrow> []),
                 salary := (case res_salary good_result of Some v \<Rightarrow> v | None \<Rightarrow> Str [])\<rparr>"
    using inst len h1 h2 h3 by blast
  have b: "snd (process_jobs good_summarizer ?df) =
     length (filter (\<lambda>(i, row). \<not> has_summary (summary row) \<and>
                        (case good_summarizer i row of Inl e \<Rightarrow> False | Inr r \<Rightarrow> skills_joinable r))
               (enumerate 0 ?df))"
    using inst by blast
  have c: "length (filter (\<lambda>(i, row). \<not> has_summary (summary row) \<and>
                        (case good_summarizer i row of Inl e \<Rightarrow> False | Inr r \<Rightarrow> skills_joinable r))
               (enumerate 0 ?df)) = 1"
    by code_simp
  show ?thesis using h1 h2 h3 a b c by (simp add: good_result_def)
qed

end
